theory Spec2Isabelle
  imports Main "HOL-Library.Sublist" "HOL-Library.AList"
begin

section \<open>Python strings\<close>

text \<open>
  Python \<open>str\<close> values are modelled as \<open>string\<close>, one \<open>char\<close> per code point, so the
  model covers the code points below 256. In that range \<open>str.isspace\<close> holds for the
  twelve characters listed, the only decimal digits are \<open>0\<close> to \<open>9\<close>, and \<open>str.lower\<close>
  changes the ASCII capitals and the Latin-1 capitals \<open>0xC0\<close> to \<open>0xDE\<close> (without
  \<open>0xD7\<close>).
\<close>

definition py_isspace :: "char \<Rightarrow> bool" where
  "py_isspace c \<longleftrightarrow> c \<in> set [CHR 0x09, CHR 0x0A, CHR 0x0B, CHR 0x0C, CHR 0x0D,
      CHR 0x1C, CHR 0x1D, CHR 0x1E, CHR 0x1F, CHR 0x20, CHR 0x85, CHR 0xA0]"

definition is_digit :: "char \<Rightarrow> bool" where
  "is_digit c \<longleftrightarrow> c \<in> set ''0123456789''"

text \<open>A non-empty run of digits.\<close>

abbreviation (input) digits :: "string \<Rightarrow> bool" where
  "digits w \<equiv> w \<noteq> [] \<and> (\<forall>c \<in> set w. is_digit c)"

definition digit_val :: "char \<Rightarrow> nat" where
  "digit_val c = of_char c - 48"

definition upper_chars :: string where
  "upper_chars = ''ABCDEFGHIJKLMNOPQRSTUVWXYZ'' @
     [CHR 0xC0, CHR 0xC1, CHR 0xC2, CHR 0xC3, CHR 0xC4, CHR 0xC5, CHR 0xC6, CHR 0xC7,
      CHR 0xC8, CHR 0xC9, CHR 0xCA, CHR 0xCB, CHR 0xCC, CHR 0xCD, CHR 0xCE, CHR 0xCF,
      CHR 0xD0, CHR 0xD1, CHR 0xD2, CHR 0xD3, CHR 0xD4, CHR 0xD5, CHR 0xD6,
      CHR 0xD8, CHR 0xD9, CHR 0xDA, CHR 0xDB, CHR 0xDC, CHR 0xDD, CHR 0xDE]"

definition lower_chars :: string where
  "lower_chars = ''abcdefghijklmnopqrstuvwxyz'' @
     [CHR 0xE0, CHR 0xE1, CHR 0xE2, CHR 0xE3, CHR 0xE4, CHR 0xE5, CHR 0xE6, CHR 0xE7,
      CHR 0xE8, CHR 0xE9, CHR 0xEA, CHR 0xEB, CHR 0xEC, CHR 0xED, CHR 0xEE, CHR 0xEF,
      CHR 0xF0, CHR 0xF1, CHR 0xF2, CHR 0xF3, CHR 0xF4, CHR 0xF5, CHR 0xF6,
      CHR 0xF8, CHR 0xF9, CHR 0xFA, CHR 0xFB, CHR 0xFC, CHR 0xFD, CHR 0xFE]"

definition py_lower_char :: "char \<Rightarrow> char" where
  "py_lower_char c =
     (case map_of (zip upper_chars lower_chars) c of Some l \<Rightarrow> l | None \<Rightarrow> c)"

text \<open>\<open>s.lower()\<close>\<close>

definition py_lower :: "string \<Rightarrow> string" where
  "py_lower s = map py_lower_char s"

text \<open>\<open>s.strip()\<close>: whitespace is removed at both ends.\<close>

definition py_strip :: "string \<Rightarrow> string" where
  "py_strip s = rev (dropWhile py_isspace (rev (dropWhile py_isspace s)))"

text \<open>\<open>needle in hay\<close> on strings: \<open>needle\<close> occurs as a contiguous piece of \<open>hay\<close>.\<close>

fun py_in :: "string \<Rightarrow> string \<Rightarrow> bool" where
  "py_in needle [] = (needle = [])"
| "py_in needle (c # cs) = (prefix needle (c # cs) \<or> py_in needle cs)"

text \<open>
  \<open>s.split()\<close> without a separator: maximal runs of non-whitespace characters. The
  first argument is the token being read.
\<close>

fun split_ws :: "string \<Rightarrow> string \<Rightarrow> string list" where
  "split_ws cur [] = (if cur = [] then [] else [cur])"
| "split_ws cur (c # cs) =
     (if py_isspace c then (if cur = [] then split_ws [] cs else cur # split_ws [] cs)
      else split_ws (cur @ [c]) cs)"

definition py_split :: "string \<Rightarrow> string list" where
  "py_split s = split_ws [] s"

text \<open>\<open>s.split(sep)\<close> with a one-character separator: every separator cuts.\<close>

fun split_sep :: "char \<Rightarrow> string \<Rightarrow> string \<Rightarrow> string list" where
  "split_sep sep cur [] = [cur]"
| "split_sep sep cur (c # cs) =
     (if c = sep then cur # split_sep sep [] cs else split_sep sep (cur @ [c]) cs)"

definition py_split_on :: "char \<Rightarrow> string \<Rightarrow> string list" where
  "py_split_on sep s = split_sep sep [] s"

text \<open>
  \<open>k, v = s.split(sep, 1)\<close> for a string that contains the separator: the text before
  the first separator and the text after it.
\<close>

definition split_once :: "char \<Rightarrow> string \<Rightarrow> string \<times> string" where
  "split_once sep s = (takeWhile (\<lambda>c. c \<noteq> sep) s, drop 1 (dropWhile (\<lambda>c. c \<noteq> sep) s))"

text \<open>
  \<open>s.splitlines()\<close>: a line ends at \<open>\n\<close>, \<open>\r\<close>, \<open>\r\n\<close>, \<open>\v\<close>, \<open>\f\<close>, \<open>\x1c\<close>, \<open>\x1d\<close>,
  \<open>\x1e\<close> or \<open>\x85\<close>; the terminators are dropped and a final terminator opens no
  further line.
\<close>

definition is_linebreak :: "char \<Rightarrow> bool" where
  "is_linebreak c \<longleftrightarrow> c \<in> set [CHR 0x0A, CHR 0x0B, CHR 0x0C, CHR 0x1C, CHR 0x1D, CHR 0x1E, CHR 0x85]"

fun split_lines :: "string \<Rightarrow> string \<Rightarrow> string list" where
  "split_lines cur [] = (if cur = [] then [] else [cur])"
| "split_lines cur (c # cs) =
     (if c = CHR 0x0D then
        (case cs of
           [] \<Rightarrow> [cur]
         | d # ds \<Rightarrow> if d = CHR 0x0A then cur # split_lines [] ds else cur # split_lines [] (d # ds))
      else if is_linebreak c then cur # split_lines [] cs
      else split_lines (cur @ [c]) cs)"

definition py_splitlines :: "string \<Rightarrow> string list" where
  "py_splitlines s = split_lines [] s"

text \<open>
  \<open>int(s)\<close> in base 10. The whitespace \<open>int\<close> ignores at both ends is narrower than that
  of \<open>str.strip\<close>: the characters \<open>0x1C\<close> to \<open>0x1F\<close> are not removed, and with one of
  them left the conversion fails. After the whitespace one sign is allowed, and the
  digits may be grouped by single underscores. A string with more digits than the
  interpreter's limit (4300 unless configured otherwise) is refused. \<open>None\<close> stands for
  \<open>ValueError\<close>.
\<close>

definition int_isspace :: "char \<Rightarrow> bool" where
  "int_isspace c \<longleftrightarrow> c \<in> set [CHR 0x09, CHR 0x0A, CHR 0x0B, CHR 0x0C, CHR 0x0D,
      CHR 0x20, CHR 0x85, CHR 0xA0]"

definition int_strip :: "string \<Rightarrow> string" where
  "int_strip s = rev (dropWhile int_isspace (rev (dropWhile int_isspace s)))"

definition max_str_digits :: nat where
  "max_str_digits = 4300"

fun parse_digits :: "nat \<Rightarrow> string \<Rightarrow> nat option" where
  "parse_digits acc [] = Some acc"
| "parse_digits acc (c # cs) =
     (if is_digit c then parse_digits (10 * acc + digit_val c) cs
      else if c = CHR ''_'' then
        (case cs of
           [] \<Rightarrow> None
         | d # ds \<Rightarrow> if is_digit d then parse_digits (10 * acc + digit_val d) ds else None)
      else None)"

definition parse_unsigned :: "string \<Rightarrow> nat option" where
  "parse_unsigned s =
     (if length (filter is_digit s) > max_str_digits then None
      else (case s of
              [] \<Rightarrow> None
            | c # cs \<Rightarrow> if is_digit c then parse_digits (digit_val c) cs else None))"

definition py_int :: "string \<Rightarrow> int option" where
  "py_int s =
     (case int_strip s of
        [] \<Rightarrow> None
      | c # cs \<Rightarrow>
          if c = CHR ''-'' then map_option (\<lambda>n. - int n) (parse_unsigned cs)
          else if c = CHR ''+'' then map_option int (parse_unsigned cs)
          else map_option int (parse_unsigned (c # cs)))"

section \<open>Values, exceptions and subprocess results\<close>

text \<open>The values that occur in the device dictionaries and in the update metadata.\<close>

datatype pyval = PStr string | PInt int | PNone

text \<open>
  The exceptions the code distinguishes. \<open>OSError\<close> stands for \<open>OSError\<close> and those of
  its subclasses that are not listed; \<open>FileNotFoundError\<close> is a subclass of it.
\<close>

datatype pyexc =
    TimeoutExpired | FileNotFoundError | OSError
  | ValueError | UnicodeDecodeError | IndexError | KeyError | AttributeError
  | TypeError | RuntimeError | URLError | JSONDecodeError

text \<open>
  \<open>subprocess.run(argv, capture_output=True, text=True, timeout=...)\<close> either raises or
  completes with the captured standard output, the only field the code reads.
\<close>

datatype run_outcome = Raises pyexc | Completed string

text \<open>The bridge tool as the code sees it: the outcome of running each command line.\<close>

type_synonym bridge = "string list \<Rightarrow> run_outcome"

section \<open>Update check\<close>

definition VERSION :: string where
  "VERSION = ''2.0.0''"

text \<open>
  \<open>_parse_version\<close>: \<open>tuple(int(p) for p in version_str.strip().split("."))\<close>, with
  \<open>(0, 0, 0)\<close> on \<open>ValueError\<close> (a component \<open>int\<close> rejects) and on \<open>AttributeError\<close> (the
  argument is not a string and has no \<open>strip\<close>).
\<close>

fun ints_of :: "string list \<Rightarrow> int list option" where
  "ints_of [] = Some []"
| "ints_of (p # ps) =
     (case py_int p of
        None \<Rightarrow> None
      | Some n \<Rightarrow> (case ints_of ps of None \<Rightarrow> None | Some ns \<Rightarrow> Some (n # ns)))"

definition parse_version :: "pyval \<Rightarrow> int list" where
  "parse_version v =
     (case v of
        PStr version_str \<Rightarrow>
          (case ints_of (py_split_on CHR ''.'' (py_strip version_str)) of
             Some t \<Rightarrow> t
           | None \<Rightarrow> [0, 0, 0])
      | _ \<Rightarrow> [0, 0, 0])"

text \<open>
  Python's \<open>>\<close> on tuples: the first position where the two differ decides; when one
  tuple is a prefix of the other, the longer one is the greater.
\<close>

fun tuple_gt :: "int list \<Rightarrow> int list \<Rightarrow> bool" where
  "tuple_gt [] ys = False"
| "tuple_gt (x # xs) [] = True"
| "tuple_gt (x # xs) (y # ys) = (if x = y then tuple_gt xs ys else x > y)"

text \<open>
  The decoded response of the update endpoint: \<open>urlopen\<close>, \<open>decode\<close> or \<open>json.loads\<close>
  raised, or the JSON text was an object (a dictionary, here with string, integer and
  null values), or it was some other JSON value, which has no \<open>get\<close>.
\<close>

datatype response = FetchRaises pyexc | JsonObject "(string \<times> pyval) list" | JsonOther

text \<open>\<open>d.get(k, default)\<close>\<close>

definition dict_get :: "(string \<times> pyval) list \<Rightarrow> string \<Rightarrow> pyval \<Rightarrow> pyval" where
  "dict_get d k dflt = (case map_of d k of Some v \<Rightarrow> v | None \<Rightarrow> dflt)"

text \<open>
  \<open>_check_for_update\<close>: every exception is caught and gives \<open>None\<close>; the metadata is
  returned when the remote version is the greater one.
\<close>

definition check_for_update :: "response \<Rightarrow> (string \<times> pyval) list option" where
  "check_for_update r =
     (case r of
        FetchRaises e \<Rightarrow> None
      | JsonOther \<Rightarrow> None
      | JsonObject data \<Rightarrow>
          (let latest_version = dict_get data ''latest'' (PStr ''0.0.0'')
           in if tuple_gt (parse_version latest_version) (parse_version (PStr VERSION))
              then Some data else None))"

section \<open>Per-device property queries\<close>

text \<open>
  \<open>re.search(r"(\d+x\d+)", s)\<close>. At a given position the greedy \<open>\d+\<close> takes the whole
  run of digits (a shorter run is followed by a digit, never by \<open>x\<close>), then \<open>x\<close> must
  follow, then a second non-empty run of digits, taken whole. The search returns the
  match at the leftmost position that has one.
\<close>

definition match_size_here :: "string \<Rightarrow> string option" where
  "match_size_here s =
     (let w = takeWhile is_digit s; r = dropWhile is_digit s
      in if w = [] then None
         else (case r of
                 [] \<Rightarrow> None
               | c # r' \<Rightarrow>
                   if c = CHR ''x'' then
                     (let h = takeWhile is_digit r'
                      in if h = [] then None else Some (w @ ''x'' @ h))
                   else None))"

fun search_size :: "string \<Rightarrow> string option" where
  "search_size [] = None"
| "search_size (c # cs) =
     (case match_size_here (c # cs) of Some m \<Rightarrow> Some m | None \<Rightarrow> search_size cs)"

text \<open>\<open>_get_resolution\<close>: every exception gives the empty string.\<close>

definition get_resolution :: "bridge \<Rightarrow> string \<Rightarrow> string \<Rightarrow> string" where
  "get_resolution run adb serial =
     (case run [adb, ''-s'', serial, ''shell'', ''wm'', ''size''] of
        Raises e \<Rightarrow> ''''
      | Completed out \<Rightarrow> (case search_size out of Some m \<Rightarrow> m | None \<Rightarrow> ''''))"

text \<open>
  \<open>re.search(r"level:\s*(\d+)", s)\<close>: the literal \<open>level:\<close>, the whole run of whitespace
  after it, and a non-empty run of digits, taken whole.
\<close>

definition match_level_here :: "string \<Rightarrow> string option" where
  "match_level_here s =
     (if prefix ''level:'' s then
        (let d = takeWhile is_digit (dropWhile py_isspace (drop 6 s))
         in if d = [] then None else Some d)
      else None)"

fun search_level :: "string \<Rightarrow> string option" where
  "search_level [] = None"
| "search_level (c # cs) =
     (case match_level_here (c # cs) of Some d \<Rightarrow> Some d | None \<Rightarrow> search_level cs)"

text \<open>\<open>_get_battery\<close>: every exception gives \<open>None\<close>.\<close>

definition get_battery :: "bridge \<Rightarrow> string \<Rightarrow> string \<Rightarrow> pyval" where
  "get_battery run adb serial =
     (case run [adb, ''-s'', serial, ''shell'', ''dumpsys'', ''battery''] of
        Raises e \<Rightarrow> PNone
      | Completed out \<Rightarrow>
          (case search_level out of
             None \<Rightarrow> PNone
           | Some d \<Rightarrow> (case py_int d of Some n \<Rightarrow> PInt n | None \<Rightarrow> PNone)))"

text \<open>\<open>_adb_prop\<close>: every exception gives the empty string.\<close>

definition adb_prop :: "bridge \<Rightarrow> string \<Rightarrow> string \<Rightarrow> string \<Rightarrow> string" where
  "adb_prop run adb serial prop =
     (case run [adb, ''-s'', serial, ''shell'', ''getprop'', prop] of
        Raises e \<Rightarrow> ''''
      | Completed out \<Rightarrow> py_strip out)"

section \<open>Listing the devices\<close>

text \<open>
  A device is the dictionary \<open>info\<close> that \<open>get_adb_devices\<close> builds: an association list
  in insertion order, where storing under an existing key keeps the key's position.
\<close>

type_synonym device = "(string \<times> pyval) list"

text \<open>\<open>a or b\<close> on strings: \<open>a\<close> unless it is empty.\<close>

definition str_or :: "string \<Rightarrow> pyval \<Rightarrow> pyval" where
  "str_or a b = (if a \<noteq> [] then PStr a else b)"

text \<open>The loop over \<open>parts[2:]\<close> that stores every \<open>key:value\<close> token.\<close>

fun collect_props :: "device \<Rightarrow> string list \<Rightarrow> device" where
  "collect_props info [] = info"
| "collect_props info (part # rest) =
     (if CHR '':'' \<in> set part then
        (case split_once CHR '':'' part of
           (k, v) \<Rightarrow> collect_props (AList.update k (PStr v) info) rest)
      else collect_props info rest)"

text \<open>The six queries made for a device whose status is \<open>device\<close>, in the source's order.\<close>

definition query_props :: "bridge \<Rightarrow> string \<Rightarrow> string \<Rightarrow> device \<Rightarrow> device" where
  "query_props run adb serial info0 =
     (let info1 = AList.update ''model''
                    (str_or (adb_prop run adb serial ''ro.product.model'')
                            (dict_get info0 ''model'' (PStr serial))) info0;
          info2 = AList.update ''manufacturer''
                    (str_or (adb_prop run adb serial ''ro.product.manufacturer'') (PStr '''')) info1;
          info3 = AList.update ''android_version''
                    (str_or (adb_prop run adb serial ''ro.build.version.release'') (PStr '''')) info2;
          info4 = AList.update ''sdk''
                    (str_or (adb_prop run adb serial ''ro.build.version.sdk'') (PStr '''')) info3;
          info5 = AList.update ''resolution'' (PStr (get_resolution run adb serial)) info4
      in AList.update ''battery'' (get_battery run adb serial) info5)"

text \<open>
  One turn of the loop over the output lines. \<open>devices\<close> is the list built so far; a
  \<open>continue\<close> returns it unchanged. \<open>parts[0]\<close> on an empty token list is the \<open>IndexError\<close>
  branch.
\<close>

definition parse_line :: "bridge \<Rightarrow> string \<Rightarrow> device list \<Rightarrow> string \<Rightarrow> pyexc + device list" where
  "parse_line run adb devices raw =
     (let line = py_strip raw
      in if line = [] \<or> py_in ''offline'' line then Inr devices
         else
           (let parts = py_split line
            in case parts of
                 [] \<Rightarrow> Inl IndexError
               | serial # others \<Rightarrow>
                   (let status = (if length parts > 1 then parts ! 1 else ''unknown'')
                    in if status \<notin> set [''device'', ''unauthorized''] then Inr devices
                       else
                         (let info = [(''serial'', PStr serial), (''status'', PStr status)];
                              info' = collect_props info (drop 2 parts);
                              info'' = (if status = ''device''
                                        then query_props run adb serial info' else info')
                          in Inr (devices @ [info''])))))"

fun parse_lines :: "bridge \<Rightarrow> string \<Rightarrow> device list \<Rightarrow> string list \<Rightarrow> pyexc + device list" where
  "parse_lines run adb devices [] = Inr devices"
| "parse_lines run adb devices (raw # rest) =
     (case parse_line run adb devices raw of
        Inl e \<Rightarrow> Inl e
      | Inr devices' \<Rightarrow> parse_lines run adb devices' rest)"

text \<open>
  \<open>get_adb_devices\<close>: \<open>TimeoutExpired\<close>, \<open>FileNotFoundError\<close> and \<open>OSError\<close> from the
  listing command are caught and give the empty list; any other exception leaves the
  function. The lines after the first one of the stripped output are parsed.
\<close>

definition get_adb_devices :: "bridge \<Rightarrow> string \<Rightarrow> pyexc + device list" where
  "get_adb_devices run adb_path =
     (case run [adb_path, ''devices'', ''-l''] of
        Raises e \<Rightarrow>
          (if e \<in> set [TimeoutExpired, FileNotFoundError, OSError] then Inr [] else Inl e)
      | Completed out \<Rightarrow> parse_lines run adb_path [] (drop 1 (py_splitlines (py_strip out))))"

subsection \<open>What the specification says of the listing\<close>

text \<open>
  The specification's reading of a line that is listed: it is not blank, does not contain
  \<open>offline\<close>, and its second token is \<open>device\<close> or \<open>unauthorized\<close>.
\<close>

definition spec_listed_line :: "string \<Rightarrow> bool" where
  "spec_listed_line raw \<longleftrightarrow>
     py_strip raw \<noteq> [] \<and> \<not> sublist ''offline'' (py_strip raw) \<and>
     (case py_split (py_strip raw) of
        serial # status # others \<Rightarrow> status = ''device'' \<or> status = ''unauthorized''
      | _ \<Rightarrow> False)"

text \<open>
  The auxiliary properties of a line: every token with a colon gives the key before the
  first colon and the value after it; a later token overrides an earlier one with the
  same key.
\<close>

definition spec_aux_props :: "string list \<Rightarrow> (string \<rightharpoonup> pyval)" where
  "spec_aux_props tokens =
     map_of (rev (map (\<lambda>t. (fst (split_once CHR '':'' t), PStr (snd (split_once CHR '':'' t))))
                      (filter (\<lambda>t. CHR '':'' \<in> set t) tokens)))"

text \<open>
  The device of a listed line, as a map from keys to values: serial and status from the
  first two tokens, the auxiliary properties of the other tokens, and for the status
  \<open>device\<close> the results of the six queries.
\<close>

definition spec_device :: "bridge \<Rightarrow> string \<Rightarrow> string \<Rightarrow> (string \<rightharpoonup> pyval)" where
  "spec_device run adb raw =
     (let parts = py_split (py_strip raw);
          serial = parts ! 0;
          status = parts ! 1;
          listed = [''serial'' \<mapsto> PStr serial, ''status'' \<mapsto> PStr status]
                     ++ spec_aux_props (drop 2 parts)
      in if status = ''device'' then
           listed
             (''model'' \<mapsto>
                (if adb_prop run adb serial ''ro.product.model'' \<noteq> ''''
                 then PStr (adb_prop run adb serial ''ro.product.model'')
                 else (case listed ''model'' of Some v \<Rightarrow> v | None \<Rightarrow> PStr serial)),
              ''manufacturer'' \<mapsto> PStr (adb_prop run adb serial ''ro.product.manufacturer''),
              ''android_version'' \<mapsto> PStr (adb_prop run adb serial ''ro.build.version.release''),
              ''sdk'' \<mapsto> PStr (adb_prop run adb serial ''ro.build.version.sdk''),
              ''resolution'' \<mapsto> PStr (get_resolution run adb serial),
              ''battery'' \<mapsto> get_battery run adb serial)
         else listed)"

subsection \<open>An example bridge\<close>

text \<open>
  A listing with an offline device, a device, a blank line, a device without
  permissions, a line with a single token and an unauthorized device, on a bridge whose
  every other command times out.
\<close>

definition listing_output :: string where
  "listing_output =
     ''List of devices attached'' @ [CHR 0x0A] @
     ''emulator-5554   offline'' @ [CHR 0x0A] @
     ''R58M  device usb:1-1 model:SM_G990 transport_id:3'' @ [CHR 0x0A] @
     [CHR 0x0A] @
     ''ZX1G  no permissions'' @ [CHR 0x0A] @
     ''lonely'' @ [CHR 0x0A] @
     ''HT7A  unauthorized usb:1-2'' @ [CHR 0x0A]"

definition failing_queries_bridge :: bridge where
  "failing_queries_bridge cmd =
     (if cmd = [''adb'', ''devices'', ''-l''] then Completed listing_output
      else Raises TimeoutExpired)"

section \<open>The application\<close>

definition ACCENT :: string where "ACCENT = ''#00D68F''"

definition RED :: string where "RED = ''#FF6B6B''"

definition YELLOW :: string where "YELLOW = ''#FFD93D''"

definition TEXT_MUTED :: string where "TEXT_MUTED = ''#4A5568''"

text \<open>A card shows one device; the widget itself belongs to the presentation layer.\<close>

datatype card = DeviceCard device

text \<open>The running mirror processes are named by numbers.\<close>

type_synonym proc = nat

text \<open>The texts of the toasts, with the value that is formatted into them.\<close>

datatype toast =
    ScrcpyNotFound
  | AlreadyMirroring pyval
  | LaunchingMirror pyval
  | ErrorToast pyexc

text \<open>Calls into the presentation layer, in the order they are made.\<close>

datatype ui_action =
    ShowToast toast string
  | ResetState card
  | Destroy card
  | UpdateApkStatus string string
  | ShowInstallPopup bool

text \<open>
  The text of the device-count label: empty, \<open>1 device\<close>, or \<open>{count} devices\<close>.
\<close>

datatype count_text = NoText | OneDevice | Devices nat

record app =
  adb_path :: "string option"
  scrcpy_path :: "string option"
  current_devices :: "device list"
  device_cards :: "card list"
  active_mirrors :: "pyval \<rightharpoonup> proc"
  device_count_label :: count_text
  empty_visible :: bool

text \<open>\<open>not path\<close> for an optional string: \<open>None\<close> and the empty string are false.\<close>

definition falsy :: "string option \<Rightarrow> bool" where
  "falsy p \<longleftrightarrow> p = None \<or> p = Some ''''"

text \<open>\<open>AndroidMirrorApp.__init__\<close>, given what the two lookups of the bundled tools found.\<close>

definition app_init :: "string option \<Rightarrow> string option \<Rightarrow> app" where
  "app_init found_adb found_scrcpy =
     \<lparr> adb_path = found_adb, scrcpy_path = found_scrcpy, current_devices = [],
       device_cards = [], active_mirrors = Map.empty, device_count_label = NoText,
       empty_visible = False \<rparr>"

text \<open>\<open>_update_count\<close>\<close>

definition update_count :: "app \<Rightarrow> nat \<Rightarrow> app" where
  "update_count st n =
     st\<lparr>device_count_label :=
          (if n = 0 then NoText else if n = 1 then OneDevice else Devices n)\<rparr>"

text \<open>\<open>_show_empty\<close>: every card is destroyed, the list is cleared, the empty frame is shown.\<close>

definition show_empty :: "app \<Rightarrow> app \<times> ui_action list" where
  "show_empty st =
     (st\<lparr>device_cards := [], empty_visible := True\<rparr>, map Destroy (device_cards st))"

text \<open>
  \<open>_refresh_devices\<close>: a tool that has not been found yet is looked up again. The result
  says whether the thread that lists the devices was started.
\<close>

definition refresh_devices ::
  "app \<Rightarrow> string option \<Rightarrow> string option \<Rightarrow> app \<times> ui_action list \<times> bool" where
  "refresh_devices st found_adb found_scrcpy =
     (let st1 = (if falsy (adb_path st) then st\<lparr>adb_path := found_adb\<rparr> else st);
          st2 = (if falsy (scrcpy_path st1) then st1\<lparr>scrcpy_path := found_scrcpy\<rparr> else st1)
      in if falsy (adb_path st2)
         then (case show_empty st2 of (st3, acts) \<Rightarrow> (st3, acts, False))
         else (st2, [], True))"

text \<open>\<open>{d["serial"] for d in devices}\<close>, as the list of the values; \<open>None\<close> is \<open>KeyError\<close>.\<close>

fun serials_of :: "device list \<Rightarrow> pyval list option" where
  "serials_of [] = Some []"
| "serials_of (d # ds) =
     (case map_of d ''serial'' of
        None \<Rightarrow> None
      | Some s \<Rightarrow> (case serials_of ds of None \<Rightarrow> None | Some ss \<Rightarrow> Some (s # ss)))"

text \<open>
  The constructor of \<open>DeviceCard\<close> as far as it can fail: it capitalises the
  manufacturer, reads \<open>device["serial"]\<close> and \<open>device["status"]\<close>, and compares the battery
  level with numbers unless the device is unauthorized.
\<close>

definition new_card :: "device \<Rightarrow> pyexc + card" where
  "new_card device =
     (case dict_get device ''manufacturer'' (PStr '''') of
        PStr m \<Rightarrow>
          (case map_of device ''serial'' of
             None \<Rightarrow> Inl KeyError
           | Some s \<Rightarrow>
               (case map_of device ''status'' of
                  None \<Rightarrow> Inl KeyError
                | Some status \<Rightarrow>
                    if status = PStr ''unauthorized'' then Inr (DeviceCard device)
                    else (case dict_get device ''battery'' PNone of
                            PStr b \<Rightarrow> Inl TypeError
                          | _ \<Rightarrow> Inr (DeviceCard device))))
      | _ \<Rightarrow> Inl AttributeError)"

text \<open>The loop that builds one card per device and appends it to \<open>device_cards\<close>.\<close>

fun build_cards :: "card list \<Rightarrow> device list \<Rightarrow> pyexc + card list" where
  "build_cards cards [] = Inr cards"
| "build_cards cards (device # rest) =
     (case new_card device of
        Inl e \<Rightarrow> Inl e
      | Inr c \<Rightarrow> build_cards (cards @ [c]) rest)"

text \<open>\<open>_update_device_list\<close>\<close>

definition update_device_list :: "app \<Rightarrow> device list \<Rightarrow> pyexc + (app \<times> ui_action list)" where
  "update_device_list st devices =
     (case serials_of (current_devices st) of
        None \<Rightarrow> Inl KeyError
      | Some current_serials \<Rightarrow>
          (case serials_of devices of
             None \<Rightarrow> Inl KeyError
           | Some new_serials \<Rightarrow>
               if set current_serials = set new_serials
                  \<and> length devices = length (current_devices st)
               then Inr (update_count st (length devices), [])
               else
                 (let st1 = update_count (st\<lparr>current_devices := devices\<rparr>) (length devices);
                      destroyed = map Destroy (device_cards st1);
                      st2 = st1\<lparr>device_cards := []\<rparr>
                  in if devices = [] then
                       (case show_empty st2 of (st3, acts) \<Rightarrow> Inr (st3, destroyed @ acts))
                     else
                       (case build_cards [] devices of
                          Inl e \<Rightarrow> Inl e
                        | Inr cards \<Rightarrow>
                            Inr (st2\<lparr>empty_visible := False, device_cards := cards\<rparr>,
                                 destroyed)))))"

section \<open>Mirror sessions\<close>

text \<open>
  What \<open>_on_device_click\<close> hands to the thread it starts: the serial, the device and the
  card that the closure \<open>launch\<close> captures.
\<close>

type_synonym launch_request = "pyval \<times> device \<times> card"

text \<open>
  \<open>_on_device_click\<close>. \<open>poll\<close> is \<open>proc.poll()\<close>: \<open>None\<close> while the process runs, its exit
  code afterwards. The result holds the new state, the calls into the presentation
  layer and the launch thread, if one was started.
\<close>

definition on_device_click ::
  "(proc \<Rightarrow> int option) \<Rightarrow> app \<Rightarrow> device \<Rightarrow> card
     \<Rightarrow> pyexc + (app \<times> ui_action list \<times> launch_request option)" where
  "on_device_click poll st device card' =
     (case map_of device ''serial'' of
        None \<Rightarrow> Inl KeyError
      | Some serial \<Rightarrow>
          if falsy (scrcpy_path st)
          then Inr (st, [ShowToast ScrcpyNotFound RED, ResetState card'], None)
          else
            (case active_mirrors st serial of
               Some proc \<Rightarrow>
                 if poll proc = None
                 then Inr (st, [ShowToast (AlreadyMirroring (dict_get device ''model'' serial)) YELLOW,
                                ResetState card'], None)
                 else Inr (st\<lparr>active_mirrors := (active_mirrors st)(serial := None)\<rparr>,
                           [ShowToast (LaunchingMirror (dict_get device ''model'' serial)) ACCENT],
                           Some (serial, device, card'))
             | None \<Rightarrow>
                 Inr (st, [ShowToast (LaunchingMirror (dict_get device ''model'' serial)) ACCENT],
                      Some (serial, device, card'))))"

text \<open>
  Work handed to the interface thread with \<open>self.after(delay, action)\<close>: the delay and
  the call.
\<close>

type_synonym scheduled = "nat \<times> ui_action"

text \<open>
  The body of the loop of \<open>monitor_output\<close> for one decoded line (the debugging \<open>print\<close>
  is left out).
\<close>

definition classify_line :: "string \<Rightarrow> scheduled list" where
  "classify_line decoded =
     (let line = py_strip decoded
      in if line = [] then []
         else
           (let line_lower = py_lower line
            in if py_in ''installing'' line_lower \<or> py_in ''install '' line_lower
               then [(0, UpdateApkStatus ''Installing...'' YELLOW)]
               else if py_in ''success'' line_lower
               then [(0, UpdateApkStatus ''Success!'' ACCENT),
                     (0, ShowInstallPopup True),
                     (3000, UpdateApkStatus '''' TEXT_MUTED)]
               else if py_in ''failure'' line_lower \<or> py_in ''failed'' line_lower
                       \<or> py_in ''error'' line_lower
               then [(0, UpdateApkStatus ''Failed!'' RED),
                     (0, ShowInstallPopup False),
                     (3000, UpdateApkStatus '''' TEXT_MUTED)]
               else []))"

text \<open>
  \<open>monitor_output\<close>: \<open>stream.readline\<close> is called until it returns the empty bytes
  object; an exception ends the loop silently.
\<close>

datatype read_outcome = ReadLine string | ReadRaises

fun monitor_output :: "read_outcome list \<Rightarrow> scheduled list" where
  "monitor_output [] = []"
| "monitor_output (ReadRaises # rest) = []"
| "monitor_output (ReadLine raw # rest) =
     (if raw = [] then [] else classify_line raw @ monitor_output rest)"

text \<open>
  The thread \<open>launch\<close>. \<open>Popen\<close> either raises or gives a process; after the process is
  stored, the rest of the \<open>try\<close> block (starting the two monitor threads, \<open>proc.wait()\<close>)
  either raises or ends with the exit code.
\<close>

datatype spawn_outcome = SpawnRaises pyexc | Spawned proc

datatype wait_outcome = WaitRaises pyexc | Exited int

text \<open>
  The first part of the \<open>try\<close> block: the command line starts with \<open>self.scrcpy_path\<close>,
  which \<open>Popen\<close> rejects when it is \<open>None\<close> or empty; a process that was started is stored
  under the serial. The result carries the exception, if any.
\<close>

definition launch_spawn :: "app \<Rightarrow> pyval \<Rightarrow> spawn_outcome \<Rightarrow> app \<times> pyexc option" where
  "launch_spawn st serial spawn =
     (if scrcpy_path st = None then (st, Some TypeError)
      else if scrcpy_path st = Some '''' then (st, Some OSError)
      else (case spawn of
              SpawnRaises e \<Rightarrow> (st, Some e)
            | Spawned proc \<Rightarrow> (st\<lparr>active_mirrors := (active_mirrors st)(serial \<mapsto> proc)\<rparr>, None)))"

text \<open>
  The \<open>except\<close> and \<open>finally\<close> clauses: an exception schedules an error toast; in every
  case the serial is popped from \<open>active_mirrors\<close> and \<open>card.reset_state\<close> is scheduled.
\<close>

definition launch_finally :: "app \<Rightarrow> launch_request \<Rightarrow> pyexc option \<Rightarrow> app \<times> scheduled list" where
  "launch_finally st req raised =
     (case req of
        (serial, device, card') \<Rightarrow>
          (st\<lparr>active_mirrors := (active_mirrors st)(serial := None)\<rparr>,
           (case raised of None \<Rightarrow> [] | Some e \<Rightarrow> [(0, ShowToast (ErrorToast e) RED)])
           @ [(0, ResetState card')]))"

text \<open>
  The whole thread. While it waits for the process the interface thread and other
  launch threads run; \<open>others\<close> is what they do to the state in that time.
\<close>

definition launch ::
  "app \<Rightarrow> launch_request \<Rightarrow> spawn_outcome \<Rightarrow> (app \<Rightarrow> app) \<Rightarrow> wait_outcome
     \<Rightarrow> app \<times> scheduled list" where
  "launch st req spawn others waited =
     (case launch_spawn st (fst req) spawn of
        (st1, Some e) \<Rightarrow> launch_finally st1 req (Some e)
      | (st1, None) \<Rightarrow>
          launch_finally (others st1) req
            (case waited of WaitRaises e \<Rightarrow> Some e | Exited code \<Rightarrow> None))"

text \<open>
  The states the application can be in: it starts from \<open>__init__\<close>, and then polls, takes
  clicks, and runs the two halves of launch threads, in any order. The interface may
  change the fields that only it uses in any way.
\<close>

inductive reachable :: "app \<Rightarrow> bool" where
  init: "reachable (app_init found_adb found_scrcpy)"
| refresh: "reachable st \<Longrightarrow> refresh_devices st found_adb found_scrcpy = (st', acts, fetch)
            \<Longrightarrow> reachable st'"
| listed: "reachable st \<Longrightarrow> update_device_list st devices = Inr (st', acts) \<Longrightarrow> reachable st'"
| interface: "reachable st \<Longrightarrow>
              reachable (st\<lparr>current_devices := ds, device_cards := cs,
                            device_count_label := l, empty_visible := e\<rparr>)"
| click: "reachable st \<Longrightarrow> on_device_click poll st device card' = Inr (st', acts, req)
          \<Longrightarrow> reachable st'"
| spawned: "reachable st \<Longrightarrow> launch_spawn st serial spawn = (st', raised) \<Longrightarrow> reachable st'"
| finished: "reachable st \<Longrightarrow> launch_finally st req raised = (st', sched) \<Longrightarrow> reachable st'"

section \<open>Version strings\<close>

lemma tuple_gt_irrefl: "\<not> tuple_gt xs xs"
  by (induction xs) auto

lemma tuple_gt_lexord: "tuple_gt xs ys \<longleftrightarrow> (ys, xs) \<in> lexord {(a, b). a < b}"
  by (induction xs ys rule: tuple_gt.induct) auto

lemma ints_of_None: "p \<in> set ps \<Longrightarrow> py_int p = None \<Longrightarrow> ints_of ps = None"
  by (induction ps) (auto split: option.splits)

lemma ints_of_Some:
  "(\<forall>p \<in> set ps. py_int p \<noteq> None) \<Longrightarrow> ints_of ps = Some (map (\<lambda>p. the (py_int p)) ps)"
  by (induction ps) (auto split: option.splits)

lemma parse_version_malformed:
  "\<exists>p \<in> set (py_split_on CHR ''.'' (py_strip s)). py_int p = None
   \<Longrightarrow> parse_version (PStr s) = [0, 0, 0]"
  by (auto simp: parse_version_def ints_of_None)

lemma parse_version_numeric:
  "\<forall>p \<in> set (py_split_on CHR ''.'' (py_strip s)). py_int p \<noteq> None \<Longrightarrow>
   parse_version (PStr s) = map (\<lambda>p. the (py_int p)) (py_split_on CHR ''.'' (py_strip s))"
  by (simp add: parse_version_def ints_of_Some)

lemma parse_version_current: "parse_version (PStr VERSION) = [2, 0, 0]"
  by code_simp

lemma check_for_update_iff:
  "check_for_update r = Some m \<longleftrightarrow>
     (\<exists>data. r = JsonObject data \<and> m = data \<and>
        tuple_gt (parse_version (dict_get data ''latest'' (PStr ''0.0.0'')))
                 (parse_version (PStr VERSION)))"
  by (cases r) (auto simp: check_for_update_def Let_def)

lemma py_int_empty: "py_int '''' = None"
  by code_simp

lemma digit_not_int_space: "is_digit c \<Longrightarrow> \<not> int_isspace c"
  unfolding is_digit_def int_isspace_def by auto

lemma digit_not_sign: "is_digit c \<Longrightarrow> c \<noteq> CHR ''-'' \<and> c \<noteq> CHR ''+''"
  unfolding is_digit_def by auto

lemma dropWhile_no_space:
  "\<forall>c \<in> set p. \<not> int_isspace c \<Longrightarrow> dropWhile int_isspace p = p"
  by (cases p) auto

lemma int_strip_digits:
  assumes "\<forall>c \<in> set p. is_digit c"
  shows "int_strip p = p"
proof -
  have "\<forall>c \<in> set p. \<not> int_isspace c" "\<forall>c \<in> set (rev p). \<not> int_isspace c"
    using assms digit_not_int_space by auto
  then have "dropWhile int_isspace p = p" "dropWhile int_isspace (rev p) = rev p"
    by (simp_all add: dropWhile_no_space)
  then show ?thesis by (simp add: int_strip_def)
qed

lemma parse_digits_digits: "\<forall>c \<in> set cs. is_digit c \<Longrightarrow> parse_digits acc cs \<noteq> None"
  by (induction cs arbitrary: acc) auto

lemma py_int_digits:
  assumes "p \<noteq> []" "\<forall>c \<in> set p. is_digit c" "length p \<le> max_str_digits"
  shows "py_int p \<noteq> None"
proof -
  obtain c cs where p: "p = c # cs" using assms(1) by (cases p) auto
  have d: "is_digit c" "\<forall>x \<in> set cs. is_digit x" using assms(2) p by auto
  have "length (filter is_digit p) \<le> max_str_digits"
    using assms(3) length_filter_le [of is_digit p] by linarith
  then have "parse_unsigned p \<noteq> None"
    using p d parse_digits_digits by (simp add: parse_unsigned_def)
  then show ?thesis
    using int_strip_digits [OF assms(2)] p d(1) digit_not_sign by (auto simp: py_int_def)
qed

text \<open>
  Claim C8, as the code has it. The update check returns the metadata exactly when the
  response is a JSON object whose \<open>latest\<close> entry (\<open>0.0.0\<close> when the entry is missing)
  parses to a tuple that is greater than the tuple of the current version \<open>2.0.0\<close>, in
  the lexicographic order of integer tuples, where a proper prefix is the smaller. A
  version string whose components are all numeric parses to the tuple of their values,
  however many components there are: \<open>2.1\<close> parses to \<open>(2, 1)\<close>. A component of one to
  4300 digits is numeric. As soon as one component is not numeric, the empty component
  included, the result is \<open>(0, 0, 0)\<close>, and so it is for a value that is not a string.
  Remote \<open>1.9.0\<close> gives no update, \<open>2.1.0\<close> gives one, and \<open>abc\<close> parses to \<open>(0, 0, 0)\<close>.
\<close>

theorem update_check_version_rule:
  "(check_for_update r = Some m \<longleftrightarrow>
      (\<exists>data. r = JsonObject data \<and> m = data \<and>
         tuple_gt (parse_version (dict_get data ''latest'' (PStr ''0.0.0'')))
                  (parse_version (PStr VERSION))))
   \<and> (tuple_gt xs ys \<longleftrightarrow> (ys, xs) \<in> lexord {(a, b). a < b})
   \<and> parse_version (PStr VERSION) = [2, 0, 0]
   \<and> ((\<forall>p \<in> set (py_split_on CHR ''.'' (py_strip s)). py_int p \<noteq> None) \<longrightarrow>
        parse_version (PStr s) = map (\<lambda>p. the (py_int p)) (py_split_on CHR ''.'' (py_strip s)))
   \<and> ((\<exists>p \<in> set (py_split_on CHR ''.'' (py_strip s)). py_int p = None) \<longrightarrow>
        parse_version (PStr s) = [0, 0, 0])
   \<and> py_int '''' = None
   \<and> parse_version (PInt n) = [0, 0, 0] \<and> parse_version PNone = [0, 0, 0]
   \<and> check_for_update (JsonObject [(''latest'', PStr ''1.9.0'')]) = None
   \<and> check_for_update (JsonObject [(''latest'', PStr ''2.1.0'')])
        = Some [(''latest'', PStr ''2.1.0'')]
   \<and> parse_version (PStr ''abc'') = [0, 0, 0]
   \<and> (q \<noteq> [] \<and> (\<forall>c \<in> set q. is_digit c) \<and> length q \<le> max_str_digits
        \<longrightarrow> py_int q \<noteq> None)
   \<and> py_int (''3'' @ [CHR 0x1F]) = None
   \<and> parse_version (PStr (''3'' @ [CHR 0x1F] @ ''.0.0'')) = [0, 0, 0]
   \<and> parse_version (PStr ''2.1'') = [2, 1]"
proof -
  have e: "py_int (''3'' @ [CHR 0x1F]) = None"
    by code_simp
  have f: "parse_version (PStr (''3'' @ [CHR 0x1F] @ ''.0.0'')) = [0, 0, 0]"
    by code_simp
  have g: "parse_version (PStr ''2.1'') = [2, 1]"
    by code_simp
  have a: "check_for_update (JsonObject [(''latest'', PStr ''1.9.0'')]) = None"
    by code_simp
  have b: "check_for_update (JsonObject [(''latest'', PStr ''2.1.0'')])
        = Some [(''latest'', PStr ''2.1.0'')]"
    by code_simp
  have c: "parse_version (PStr ''abc'') = [0, 0, 0]"
    by code_simp
  have d: "parse_version (PInt n) = [0, 0, 0]" "parse_version PNone = [0, 0, 0]"
    by (simp_all add: parse_version_def)
  show ?thesis
    using a b c d e f g check_for_update_iff [of r m] tuple_gt_lexord [of xs ys]
      parse_version_current parse_version_numeric [of s] parse_version_malformed [of s]
      py_int_empty py_int_digits [of q]
    by blast
qed

theorem update_check_version_rule_witness:
  "check_for_update (JsonObject [(''latest'', PStr ''2.0.1'')])
     = Some [(''latest'', PStr ''2.0.1'')]
   \<and> tuple_gt [2, 0, 1] [2, 0, 0]
   \<and> ([2, 0, 0], [2, 0, 1]) \<in> lexord {(a, b). a < (b::int)}
   \<and> parse_version (PStr ''2.0.1'') = [2, 0, 1]
   \<and> (\<exists>p \<in> set (py_split_on CHR ''.'' (py_strip ''2..1'')). py_int p = None)
   \<and> parse_version (PStr ''2..1'') = [0, 0, 0]
   \<and> py_int ''19'' \<noteq> None"
proof -
  have dg: "''19'' \<noteq> [] \<and> (\<forall>c \<in> set ''19''. is_digit c) \<and> length ''19'' \<le> max_str_digits"
    by (simp add: is_digit_def max_str_digits_def)
  have nn: "py_int ''19'' \<noteq> None"
    using update_check_version_rule [where q = "''19''"] dg by blast
  have num: "\<forall>p \<in> set (py_split_on CHR ''.'' (py_strip ''2.0.1'')). py_int p \<noteq> None"
    by code_simp
  have bad: "\<exists>p \<in> set (py_split_on CHR ''.'' (py_strip ''2..1'')). py_int p = None"
    by code_simp
  have gt: "tuple_gt [2, 0, 1] [2, 0, 0]"
    by simp
  have comps: "map (\<lambda>p. the (py_int p)) (py_split_on CHR ''.'' (py_strip ''2.0.1'')) = [2, 0, 1]"
    by code_simp
  have pv: "parse_version (PStr ''2.0.1'') = [2, 0, 1]"
    using update_check_version_rule [where s = "''2.0.1''"] num comps by simp
  have lat: "dict_get [(''latest'', PStr ''2.0.1'')] ''latest'' (PStr ''0.0.0'') = PStr ''2.0.1''"
    by (simp add: dict_get_def)
  note t1 = update_check_version_rule
    [of "JsonObject [(''latest'', PStr ''2.0.1'')]" "[(''latest'', PStr ''2.0.1'')]"
        "[2, 0, 1]" "[2, 0, 0]" "''2.0.1''"]
  note t2 = update_check_version_rule [where s = "''2..1''"]
  from t1 have "check_for_update (JsonObject [(''latest'', PStr ''2.0.1'')])
     = Some [(''latest'', PStr ''2.0.1'')]"
    using gt pv lat by simp
  moreover from t1 gt have "([2, 0, 0], [2, 0, 1]) \<in> lexord {(a, b). a < (b::int)}"
    by blast
  moreover from t2 bad have "parse_version (PStr ''2..1'') = [0, 0, 0]"
    by blast
  ultimately show ?thesis using num bad gt pv nn by blast
qed

text \<open>
  A version string with fewer than three components is not turned into \<open>(0, 0, 0)\<close>:
  \<open>2.1\<close> parses to \<open>(2, 1)\<close>, which is greater than \<open>(2, 0, 0)\<close>, and the update is offered.
\<close>

theorem update_check_short_version_counterexample:
  "parse_version (PStr ''2.1'') = [2, 1]
   \<and> parse_version (PStr ''2.1'') \<noteq> [0, 0, 0]
   \<and> check_for_update (JsonObject [(''latest'', PStr ''2.1'')])
        = Some [(''latest'', PStr ''2.1'')]"
proof -
  have a: "parse_version (PStr ''2.1'') = [2, 1]"
    by code_simp
  have b: "check_for_update (JsonObject [(''latest'', PStr ''2.1'')])
        = Some [(''latest'', PStr ''2.1'')]"
    by code_simp
  from a b show ?thesis by simp
qed

section \<open>Resolution query\<close>

lemma not_digit_x: "\<not> is_digit CHR ''x''"
  by (simp add: is_digit_def)

lemma match_size_here_Some:
  assumes "match_size_here s = Some m"
  shows "\<exists>w h rest. s = w @ ''x'' @ h @ rest \<and> m = w @ ''x'' @ h \<and> digits w \<and> digits h
           \<and> (rest = [] \<or> \<not> is_digit (hd rest))"
proof -
  let ?w = "takeWhile is_digit s" and ?r = "dropWhile is_digit s"
  from assms have w: "?w \<noteq> []"
    by (auto simp: match_size_here_def Let_def split: if_splits)
  from assms w obtain r' where r: "?r = CHR ''x'' # r'"
    by (auto simp: match_size_here_def Let_def split: if_splits list.splits)
  let ?h = "takeWhile is_digit r'" and ?rest = "dropWhile is_digit r'"
  from assms w r have h: "?h \<noteq> []" and m: "m = ?w @ ''x'' @ ?h"
    by (auto simp: match_size_here_def Let_def split: if_splits)
  have "s = ?w @ ?r" by simp
  also have "?r = ''x'' @ ?h @ ?rest" using r by simp
  finally have s: "s = ?w @ ''x'' @ ?h @ ?rest" .
  have dw: "\<forall>c \<in> set ?w. is_digit c" by (auto dest: set_takeWhileD)
  have dh: "\<forall>c \<in> set ?h. is_digit c" by (auto dest: set_takeWhileD)
  have rest: "?rest = [] \<or> \<not> is_digit (hd ?rest)"
    using hd_dropWhile [of is_digit r'] by blast
  show ?thesis using s m w h dw dh rest by blast
qed

lemma match_size_here_complete:
  assumes "s = w @ ''x'' @ h @ rest" "digits w" "digits h"
  shows "match_size_here s \<noteq> None"
proof -
  have tw: "takeWhile is_digit s = w"
    using assms not_digit_x by (simp add: takeWhile_append2)
  have dw: "dropWhile is_digit s = CHR ''x'' # h @ rest"
    using assms not_digit_x by (simp add: dropWhile_append2)
  have th: "takeWhile is_digit (h @ rest) \<noteq> []"
    using assms by (cases h) auto
  show ?thesis using tw dw th assms by (simp add: match_size_here_def Let_def)
qed

lemma search_size_None_iff:
  "search_size s = None \<longleftrightarrow> (\<forall>t. suffix t s \<longrightarrow> match_size_here t = None)"
proof (induction s)
  case Nil
  show ?case by (simp add: match_size_here_def)
next
  case (Cons c cs)
  then show ?case by (auto simp: suffix_Cons split: option.splits)
qed

lemma search_size_Some:
  "search_size s = Some m \<Longrightarrow>
   \<exists>pre post. s = pre @ post \<and> match_size_here post = Some m
      \<and> (\<forall>k < length pre. match_size_here (drop k s) = None)"
proof (induction s)
  case Nil
  then show ?case by simp
next
  case (Cons c cs)
  show ?case
  proof (cases "match_size_here (c # cs)")
    case (Some m')
    with Cons.prems have "m' = m" by simp
    with Some have "c # cs = [] @ (c # cs) \<and> match_size_here (c # cs) = Some m
      \<and> (\<forall>k < length ([]::string). match_size_here (drop k (c # cs)) = None)" by simp
    then show ?thesis by blast
  next
    case None
    with Cons.prems have "search_size cs = Some m" by simp
    from Cons.IH [OF this] obtain pre post where
      p: "cs = pre @ post" "match_size_here post = Some m"
         "\<forall>k < length pre. match_size_here (drop k cs) = None" by blast
    have "\<forall>k < length (c # pre). match_size_here (drop k (c # cs)) = None"
    proof (intro allI impI)
      fix k assume "k < length (c # pre)"
      then show "match_size_here (drop k (c # cs)) = None"
        using None p(3) by (cases k) auto
    qed
    with p(1,2) have "c # cs = (c # pre) @ post \<and> match_size_here post = Some m
      \<and> (\<forall>k < length (c # pre). match_size_here (drop k (c # cs)) = None)" by simp
    then show ?thesis by blast
  qed
qed

lemma search_size_None_no_pattern:
  "search_size s = None \<longleftrightarrow>
     \<not> (\<exists>pre w h post. s = pre @ w @ ''x'' @ h @ post \<and> digits w \<and> digits h)"
proof
  assume n: "search_size s = None"
  show "\<not> (\<exists>pre w h post. s = pre @ w @ ''x'' @ h @ post \<and> digits w \<and> digits h)"
  proof
    assume "\<exists>pre w h post. s = pre @ w @ ''x'' @ h @ post \<and> digits w \<and> digits h"
    then obtain pre w h post where d: "s = pre @ w @ ''x'' @ h @ post" "digits w" "digits h"
      by blast
    have "suffix (w @ ''x'' @ h @ post) s" using d(1) by (simp add: suffix_def)
    with n have "match_size_here (w @ ''x'' @ h @ post) = None"
      by (simp add: search_size_None_iff)
    with match_size_here_complete [OF refl d(2,3), of post] show False by simp
  qed
next
  assume no: "\<not> (\<exists>pre w h post. s = pre @ w @ ''x'' @ h @ post \<and> digits w \<and> digits h)"
  show "search_size s = None"
  proof (rule ccontr)
    assume "search_size s \<noteq> None"
    then obtain m where "search_size s = Some m" by blast
    from search_size_Some [OF this] obtain pre post where
      p: "s = pre @ post" "match_size_here post = Some m" by blast
    from match_size_here_Some [OF p(2)] obtain w h rest where
      "post = w @ ''x'' @ h @ rest" "digits w" "digits h" by blast
    with p(1) no show False by blast
  qed
qed

text \<open>
  Claim C9. The resolution query returns the first \<open>WIDTHxHEIGHT\<close> pattern of the shell
  output: on \<open>Physical size: 1080x2340\<close> it returns \<open>1080x2340\<close>; when no piece of the
  output is a run of digits, an \<open>x\<close> and a run of digits, it returns the empty string;
  otherwise it returns such a piece, whose second run of digits is not followed by a
  further digit and before whose start no such piece starts.
\<close>

theorem resolution_first_pattern:
  "(run [adb, ''-s'', serial, ''shell'', ''wm'', ''size''] = Completed ''Physical size: 1080x2340''
      \<longrightarrow> get_resolution run adb serial = ''1080x2340'')
   \<and> (run [adb, ''-s'', serial, ''shell'', ''wm'', ''size''] = Completed out \<longrightarrow>
        (\<not> (\<exists>pre w h post. out = pre @ w @ ''x'' @ h @ post \<and> digits w \<and> digits h)
           \<longrightarrow> get_resolution run adb serial = '''')
      \<and> ((\<exists>pre w h post. out = pre @ w @ ''x'' @ h @ post \<and> digits w \<and> digits h)
           \<longrightarrow> (\<exists>pre w h post. out = pre @ w @ ''x'' @ h @ post \<and> digits w \<and> digits h
                  \<and> (post = [] \<or> \<not> is_digit (hd post))
                  \<and> (\<forall>k < length pre. \<not> (\<exists>w' h' post'.
                         drop k out = w' @ ''x'' @ h' @ post' \<and> digits w' \<and> digits h'))
                  \<and> get_resolution run adb serial = w @ ''x'' @ h)))"
proof (intro conjI impI)
  assume "run [adb, ''-s'', serial, ''shell'', ''wm'', ''size''] = Completed ''Physical size: 1080x2340''"
  moreover have "search_size ''Physical size: 1080x2340'' = Some ''1080x2340''"
    by code_simp
  ultimately show "get_resolution run adb serial = ''1080x2340''"
    by (simp add: get_resolution_def)
next
  assume "run [adb, ''-s'', serial, ''shell'', ''wm'', ''size''] = Completed out"
    and "\<not> (\<exists>pre w h post. out = pre @ w @ ''x'' @ h @ post \<and> digits w \<and> digits h)"
  then show "get_resolution run adb serial = ''''"
    using search_size_None_no_pattern [of out] by (simp add: get_resolution_def)
next
  assume r: "run [adb, ''-s'', serial, ''shell'', ''wm'', ''size''] = Completed out"
    and ex: "\<exists>pre w h post. out = pre @ w @ ''x'' @ h @ post \<and> digits w \<and> digits h"
  from ex have "search_size out \<noteq> None"
    using search_size_None_no_pattern [of out] by blast
  then obtain m where m: "search_size out = Some m" by blast
  from search_size_Some [OF m] obtain pre post0 where
    p: "out = pre @ post0" "match_size_here post0 = Some m"
       "\<forall>k < length pre. match_size_here (drop k out) = None" by blast
  from match_size_here_Some [OF p(2)] obtain w h post where
    q: "post0 = w @ ''x'' @ h @ post" "m = w @ ''x'' @ h" "digits w" "digits h"
       "post = [] \<or> \<not> is_digit (hd post)" by blast
  have left: "\<forall>k < length pre. \<not> (\<exists>w' h' post'.
                 drop k out = w' @ ''x'' @ h' @ post' \<and> digits w' \<and> digits h')"
  proof (intro allI impI notI)
    fix k assume "k < length pre"
      and "\<exists>w' h' post'. drop k out = w' @ ''x'' @ h' @ post' \<and> digits w' \<and> digits h'"
    then show False using p(3) match_size_here_complete by blast
  qed
  have "get_resolution run adb serial = w @ ''x'' @ h"
    using r m q(2) by (simp add: get_resolution_def)
  with p(1) q left
  show "\<exists>pre w h post. out = pre @ w @ ''x'' @ h @ post \<and> digits w \<and> digits h
          \<and> (post = [] \<or> \<not> is_digit (hd post))
          \<and> (\<forall>k < length pre. \<not> (\<exists>w' h' post'.
                 drop k out = w' @ ''x'' @ h' @ post' \<and> digits w' \<and> digits h'))
          \<and> get_resolution run adb serial = w @ ''x'' @ h"
    by blast
qed

theorem resolution_first_pattern_witness:
  "get_resolution (\<lambda>cmd. Completed ''Physical size: 1080x2340'') ''adb'' ''S1'' = ''1080x2340''
   \<and> \<not> (\<exists>pre w h post. ''wm: 12 x 34'' = pre @ w @ ''x'' @ h @ post \<and> digits w \<and> digits h)
   \<and> get_resolution (\<lambda>cmd. Completed ''wm: 12 x 34'') ''adb'' ''S1'' = ''''
   \<and> (\<exists>pre w h post. ''12 34x56'' = pre @ w @ ''x'' @ h @ post \<and> digits w \<and> digits h)
   \<and> (\<exists>pre w h post. ''12 34x56'' = pre @ w @ ''x'' @ h @ post \<and> digits w \<and> digits h
         \<and> (post = [] \<or> \<not> is_digit (hd post))
         \<and> (\<forall>k < length pre. \<not> (\<exists>w' h' post'.
                drop k ''12 34x56'' = w' @ ''x'' @ h' @ post' \<and> digits w' \<and> digits h'))
         \<and> get_resolution (\<lambda>cmd. Completed ''12 34x56'') ''adb'' ''S1'' = w @ ''x'' @ h)"
proof -
  have none: "search_size ''wm: 12 x 34'' = None"
    by code_simp
  have no: "\<not> (\<exists>pre w h post. ''wm: 12 x 34'' = pre @ w @ ''x'' @ h @ post \<and> digits w \<and> digits h)"
    using none search_size_None_no_pattern [of "''wm: 12 x 34''"] by blast
  have "''12 34x56'' = ''12 '' @ ''34'' @ ''x'' @ ''56'' @ '''' \<and> digits ''34'' \<and> digits ''56''"
    by (simp add: is_digit_def)
  then have ex: "\<exists>pre w h post. ''12 34x56'' = pre @ w @ ''x'' @ h @ post \<and> digits w \<and> digits h"
    by blast
  note a = resolution_first_pattern
    [of "\<lambda>cmd. Completed ''Physical size: 1080x2340''" "''adb''" "''S1''" "''Physical size: 1080x2340''"]
  note b = resolution_first_pattern
    [of "\<lambda>cmd. Completed ''wm: 12 x 34''" "''adb''" "''S1''" "''wm: 12 x 34''"]
  note c = resolution_first_pattern
    [of "\<lambda>cmd. Completed ''12 34x56''" "''adb''" "''S1''" "''12 34x56''"]
  from a have 1: "get_resolution (\<lambda>cmd. Completed ''Physical size: 1080x2340'') ''adb'' ''S1'' = ''1080x2340''"
    by simp
  from b no have 2: "get_resolution (\<lambda>cmd. Completed ''wm: 12 x 34'') ''adb'' ''S1'' = ''''"
    by simp
  from c ex have 3: "\<exists>pre w h post. ''12 34x56'' = pre @ w @ ''x'' @ h @ post \<and> digits w \<and> digits h
         \<and> (post = [] \<or> \<not> is_digit (hd post))
         \<and> (\<forall>k < length pre. \<not> (\<exists>w' h' post'.
                drop k ''12 34x56'' = w' @ ''x'' @ h' @ post' \<and> digits w' \<and> digits h'))
         \<and> get_resolution (\<lambda>cmd. Completed ''12 34x56'') ''adb'' ''S1'' = w @ ''x'' @ h"
    by simp
  from 1 2 3 no ex show ?thesis by blast
qed

section \<open>Output monitor\<close>

lemma py_in_sublist: "py_in needle hay \<longleftrightarrow> sublist needle hay"
  by (induction hay) (auto simp: sublist_Cons_right)

lemma lower_not_upper: "l \<in> set lower_chars \<Longrightarrow> l \<notin> set upper_chars"
  unfolding lower_chars_def upper_chars_def by auto

lemma lower_not_space: "l \<in> set lower_chars \<Longrightarrow> \<not> py_isspace l"
  unfolding lower_chars_def py_isspace_def by auto

lemma upper_not_space: "l \<in> set upper_chars \<Longrightarrow> \<not> py_isspace l"
  unfolding upper_chars_def py_isspace_def by auto

lemma lower_table_Some:
  assumes "map_of (zip upper_chars lower_chars) c = Some l"
  shows "c \<in> set upper_chars \<and> l \<in> set lower_chars"
proof -
  from assms have "(c, l) \<in> set (zip upper_chars lower_chars)" by (rule map_of_SomeD)
  then show ?thesis by (blast dest: set_zip_leftD set_zip_rightD)
qed

lemma lower_table_None:
  assumes "c \<notin> set upper_chars"
  shows "map_of (zip upper_chars lower_chars) c = None"
proof -
  have "c \<notin> fst ` set (zip upper_chars lower_chars)"
    using assms by (auto dest: set_zip_leftD)
  then show ?thesis by (simp add: map_of_eq_None_iff)
qed

lemma py_lower_char_idem: "py_lower_char (py_lower_char c) = py_lower_char c"
proof (cases "map_of (zip upper_chars lower_chars) c")
  case None
  then show ?thesis by (simp add: py_lower_char_def)
next
  case (Some l)
  then have "l \<notin> set upper_chars" using lower_table_Some lower_not_upper by blast
  then have "map_of (zip upper_chars lower_chars) l = None" by (rule lower_table_None)
  with Some show ?thesis by (simp add: py_lower_char_def)
qed

lemma py_isspace_lower: "py_isspace (py_lower_char c) = py_isspace c"
proof (cases "map_of (zip upper_chars lower_chars) c")
  case None
  then show ?thesis by (simp add: py_lower_char_def)
next
  case (Some l)
  then have "\<not> py_isspace l" "\<not> py_isspace c"
    using lower_table_Some lower_not_space upper_not_space by blast+
  with Some show ?thesis by (simp add: py_lower_char_def)
qed

lemma py_lower_idem: "py_lower (py_lower s) = py_lower s"
  by (simp add: py_lower_def py_lower_char_idem)

lemma dropWhile_space_lower:
  "dropWhile py_isspace (map py_lower_char s) = map py_lower_char (dropWhile py_isspace s)"
  by (induction s) (simp_all add: py_isspace_lower)

lemma py_strip_lower: "py_strip (py_lower s) = py_lower (py_strip s)"
proof -
  have "rev (dropWhile py_isspace (rev (dropWhile py_isspace (map py_lower_char s))))
      = rev (dropWhile py_isspace (map py_lower_char (rev (dropWhile py_isspace s))))"
    by (simp only: dropWhile_space_lower rev_map)
  also have "\<dots> = map py_lower_char (rev (dropWhile py_isspace (rev (dropWhile py_isspace s))))"
    by (simp only: dropWhile_space_lower rev_map)
  finally show ?thesis by (simp only: py_strip_def py_lower_def)
qed

lemma py_lower_Nil: "py_lower s = [] \<longleftrightarrow> s = []"
  by (simp add: py_lower_def)

lemma classify_line_lower: "classify_line (py_lower decoded) = classify_line decoded"
  by (simp add: classify_line_def py_strip_lower py_lower_idem py_lower_Nil Let_def)

lemma monitor_output_lines:
  "\<forall>raw \<in> set raws. raw \<noteq> [] \<Longrightarrow>
   monitor_output (map ReadLine raws) = concat (map classify_line raws)"
  by (induction raws) auto

text \<open>
  Claim C2, as the code has it. The classification of a line looks only at the
  lower-cased, stripped line, and its checks are tried in order, the first that holds
  deciding alone: a blank line schedules nothing; a line that contains \<open>installing\<close> or
  \<open>install \<close> schedules the status \<open>Installing...\<close> and nothing else; otherwise a line
  that contains \<open>success\<close> schedules the status \<open>Success!\<close> with its popup and the reset
  of the status after 3000 time units; otherwise a line that contains \<open>failure\<close>,
  \<open>failed\<close> or \<open>error\<close> schedules the status \<open>Failed!\<close> with its popup and the same
  reset; any other line schedules nothing. The monitor classifies the lines of its
  stream one after the other.
\<close>

theorem monitor_line_priority:
  "classify_line (py_lower decoded) = classify_line decoded
   \<and> (py_strip decoded = [] \<longrightarrow> classify_line decoded = [])
   \<and> (py_strip decoded \<noteq> [] \<longrightarrow>
        ((sublist ''installing'' (py_lower (py_strip decoded))
            \<or> sublist ''install '' (py_lower (py_strip decoded))) \<longrightarrow>
           classify_line decoded = [(0, UpdateApkStatus ''Installing...'' YELLOW)])
      \<and> (\<not> (sublist ''installing'' (py_lower (py_strip decoded))
               \<or> sublist ''install '' (py_lower (py_strip decoded))) \<longrightarrow>
           (sublist ''success'' (py_lower (py_strip decoded)) \<longrightarrow>
              classify_line decoded =
                [(0, UpdateApkStatus ''Success!'' ACCENT), (0, ShowInstallPopup True),
                 (3000, UpdateApkStatus '''' TEXT_MUTED)])
         \<and> (\<not> sublist ''success'' (py_lower (py_strip decoded)) \<longrightarrow>
              ((sublist ''failure'' (py_lower (py_strip decoded))
                  \<or> sublist ''failed'' (py_lower (py_strip decoded))
                  \<or> sublist ''error'' (py_lower (py_strip decoded))) \<longrightarrow>
                 classify_line decoded =
                   [(0, UpdateApkStatus ''Failed!'' RED), (0, ShowInstallPopup False),
                    (3000, UpdateApkStatus '''' TEXT_MUTED)])
            \<and> (\<not> (sublist ''failure'' (py_lower (py_strip decoded))
                     \<or> sublist ''failed'' (py_lower (py_strip decoded))
                     \<or> sublist ''error'' (py_lower (py_strip decoded))) \<longrightarrow>
                 classify_line decoded = []))))
   \<and> ((\<forall>raw \<in> set raws. raw \<noteq> []) \<longrightarrow>
        monitor_output (map ReadLine raws) = concat (map classify_line raws))"
proof -
  have low: "classify_line (py_lower decoded) = classify_line decoded"
    by (rule classify_line_lower)
  have cls: "classify_line decoded =
     (let line = py_strip decoded
      in if line = [] then []
         else
           (let line_lower = py_lower line
            in if sublist ''installing'' line_lower \<or> sublist ''install '' line_lower
               then [(0, UpdateApkStatus ''Installing...'' YELLOW)]
               else if sublist ''success'' line_lower
               then [(0, UpdateApkStatus ''Success!'' ACCENT),
                     (0, ShowInstallPopup True),
                     (3000, UpdateApkStatus '''' TEXT_MUTED)]
               else if sublist ''failure'' line_lower \<or> sublist ''failed'' line_lower
                       \<or> sublist ''error'' line_lower
               then [(0, UpdateApkStatus ''Failed!'' RED),
                     (0, ShowInstallPopup False),
                     (3000, UpdateApkStatus '''' TEXT_MUTED)]
               else []))"
    unfolding classify_line_def py_in_sublist ..
  have mon: "(\<forall>raw \<in> set raws. raw \<noteq> []) \<longrightarrow>
        monitor_output (map ReadLine raws) = concat (map classify_line raws)"
    using monitor_output_lines by blast
  show ?thesis
    apply (intro conjI)
      apply (rule low)
     apply (simp add: cls)
     apply (simp add: cls Let_def)
    apply (rule mon)
    done
qed

text \<open>
  The three checks are not all evaluated for every line: \<open>INSTALL FAILED\<close> contains
  \<open>failed\<close>, but since it also contains \<open>install \<close> it only schedules \<open>Installing...\<close>.
\<close>

theorem monitor_line_all_checks_counterexample:
  "sublist ''failed'' (py_lower (py_strip ''INSTALL FAILED''))
   \<and> classify_line ''INSTALL FAILED'' = [(0, UpdateApkStatus ''Installing...'' YELLOW)]
   \<and> (0, UpdateApkStatus ''Failed!'' RED) \<notin> set (classify_line ''INSTALL FAILED'')"
proof -
  have "py_in ''failed'' (py_lower (py_strip ''INSTALL FAILED''))"
    by code_simp
  moreover have c: "classify_line ''INSTALL FAILED'' = [(0, UpdateApkStatus ''Installing...'' YELLOW)]"
    by code_simp
  moreover have "(0, UpdateApkStatus ''Failed!'' RED) \<notin> set (classify_line ''INSTALL FAILED'')"
    unfolding c by simp
  ultimately show ?thesis by (simp add: py_in_sublist)
qed

theorem monitor_line_priority_witness:
  "classify_line (py_lower ''Success'') = classify_line ''Success''
   \<and> py_strip ''  '' = [] \<and> classify_line ''  '' = []
   \<and> py_strip ''Installing app'' \<noteq> []
   \<and> sublist ''installing'' (py_lower (py_strip ''Installing app''))
   \<and> classify_line ''Installing app'' = [(0, UpdateApkStatus ''Installing...'' YELLOW)]
   \<and> py_strip ''Success'' \<noteq> []
   \<and> \<not> (sublist ''installing'' (py_lower (py_strip ''Success''))
           \<or> sublist ''install '' (py_lower (py_strip ''Success'')))
   \<and> sublist ''success'' (py_lower (py_strip ''Success''))
   \<and> classify_line ''Success'' =
        [(0, UpdateApkStatus ''Success!'' ACCENT), (0, ShowInstallPopup True),
         (3000, UpdateApkStatus '''' TEXT_MUTED)]
   \<and> py_strip ''adb: ERROR'' \<noteq> []
   \<and> \<not> (sublist ''installing'' (py_lower (py_strip ''adb: ERROR''))
           \<or> sublist ''install '' (py_lower (py_strip ''adb: ERROR'')))
   \<and> \<not> sublist ''success'' (py_lower (py_strip ''adb: ERROR''))
   \<and> sublist ''error'' (py_lower (py_strip ''adb: ERROR''))
   \<and> classify_line ''adb: ERROR'' =
        [(0, UpdateApkStatus ''Failed!'' RED), (0, ShowInstallPopup False),
         (3000, UpdateApkStatus '''' TEXT_MUTED)]
   \<and> py_strip ''hello'' \<noteq> []
   \<and> \<not> (sublist ''installing'' (py_lower (py_strip ''hello''))
           \<or> sublist ''install '' (py_lower (py_strip ''hello'')))
   \<and> \<not> sublist ''success'' (py_lower (py_strip ''hello''))
   \<and> \<not> (sublist ''failure'' (py_lower (py_strip ''hello''))
           \<or> sublist ''failed'' (py_lower (py_strip ''hello''))
           \<or> sublist ''error'' (py_lower (py_strip ''hello'')))
   \<and> classify_line ''hello'' = []
   \<and> monitor_output (map ReadLine [''Success'', ''hello''])
       = concat (map classify_line [''Success'', ''hello''])"
proof -
  have blank: "py_strip ''  '' = []"
    by code_simp
  have i1: "py_strip ''Installing app'' \<noteq> []"
    by code_simp
  have i2: "sublist ''installing'' (py_lower (py_strip ''Installing app''))"
    unfolding py_in_sublist [symmetric] by code_simp
  have s1: "py_strip ''Success'' \<noteq> []"
    by code_simp
  have s2: "\<not> (sublist ''installing'' (py_lower (py_strip ''Success''))
           \<or> sublist ''install '' (py_lower (py_strip ''Success'')))"
    unfolding py_in_sublist [symmetric] by code_simp
  have s3: "sublist ''success'' (py_lower (py_strip ''Success''))"
    unfolding py_in_sublist [symmetric] by code_simp
  have e1: "py_strip ''adb: ERROR'' \<noteq> []"
    by code_simp
  have e2: "\<not> (sublist ''installing'' (py_lower (py_strip ''adb: ERROR''))
           \<or> sublist ''install '' (py_lower (py_strip ''adb: ERROR'')))"
    unfolding py_in_sublist [symmetric] by code_simp
  have e3: "\<not> sublist ''success'' (py_lower (py_strip ''adb: ERROR''))"
    unfolding py_in_sublist [symmetric] by code_simp
  have e4: "sublist ''error'' (py_lower (py_strip ''adb: ERROR''))"
    unfolding py_in_sublist [symmetric] by code_simp
  have h1: "py_strip ''hello'' \<noteq> []"
    by code_simp
  have h2: "\<not> (sublist ''installing'' (py_lower (py_strip ''hello''))
           \<or> sublist ''install '' (py_lower (py_strip ''hello'')))"
    unfolding py_in_sublist [symmetric] by code_simp
  have h3: "\<not> sublist ''success'' (py_lower (py_strip ''hello''))"
    unfolding py_in_sublist [symmetric] by code_simp
  have h4: "\<not> (sublist ''failure'' (py_lower (py_strip ''hello''))
           \<or> sublist ''failed'' (py_lower (py_strip ''hello''))
           \<or> sublist ''error'' (py_lower (py_strip ''hello'')))"
    unfolding py_in_sublist [symmetric] by code_simp
  have ne: "\<forall>raw \<in> set [''Success'', ''hello'']. raw \<noteq> []"
    by simp
  note tb = monitor_line_priority [of "''  ''" "[''Success'', ''hello'']"]
  note ti = monitor_line_priority [of "''Installing app''" "[]"]
  note ts = monitor_line_priority [of "''Success''" "[]"]
  note te = monitor_line_priority [of "''adb: ERROR''" "[]"]
  note th = monitor_line_priority [of "''hello''" "[]"]
  from ts have c0: "classify_line (py_lower ''Success'') = classify_line ''Success''"
    by blast
  from tb blank have c1: "classify_line ''  '' = []"
    by blast
  from tb ne have c2: "monitor_output (map ReadLine [''Success'', ''hello''])
       = concat (map classify_line [''Success'', ''hello''])"
    by blast
  from ti i1 i2 have c3:
    "classify_line ''Installing app'' = [(0, UpdateApkStatus ''Installing...'' YELLOW)]"
    by blast
  from ts s1 s2 s3 have c4: "classify_line ''Success'' =
        [(0, UpdateApkStatus ''Success!'' ACCENT), (0, ShowInstallPopup True),
         (3000, UpdateApkStatus '''' TEXT_MUTED)]"
    by blast
  from te e1 e2 e3 e4 have c5: "classify_line ''adb: ERROR'' =
        [(0, UpdateApkStatus ''Failed!'' RED), (0, ShowInstallPopup False),
         (3000, UpdateApkStatus '''' TEXT_MUTED)]"
    by blast
  from th h1 h2 h3 h4 have c6: "classify_line ''hello'' = []"
    by blast
  show ?thesis
    using blank i1 i2 s1 s2 s3 e1 e2 e3 e4 h1 h2 h3 h4 ne c0 c1 c2 c3 c4 c5 c6
    by (intro conjI) blast+
qed

section \<open>Device listing\<close>

lemma split_ws_Nil: "split_ws cur s = [] \<longleftrightarrow> cur = [] \<and> (\<forall>c \<in> set s. py_isspace c)"
  by (induction s arbitrary: cur) auto

lemma py_strip_nonspace:
  assumes "py_strip s \<noteq> []"
  shows "\<exists>c \<in> set (py_strip s). \<not> py_isspace c"
proof -
  let ?t = "dropWhile py_isspace (rev (dropWhile py_isspace s))"
  from assms have ne: "?t \<noteq> []" by (simp add: py_strip_def)
  then have "\<not> py_isspace (hd ?t)" by (rule hd_dropWhile)
  moreover from ne have "hd ?t \<in> set (py_strip s)" by (simp add: py_strip_def)
  ultimately show ?thesis by blast
qed

lemma py_split_strip_nonempty: "py_strip raw \<noteq> [] \<Longrightarrow> py_split (py_strip raw) \<noteq> []"
  using py_strip_nonspace [of raw] by (auto simp: py_split_def split_ws_Nil)

lemma collect_props_map:
  "map_of (collect_props info tokens) = map_of info ++ spec_aux_props tokens"
proof (induction tokens arbitrary: info)
  case Nil
  show ?case by (simp add: spec_aux_props_def)
next
  case (Cons t ts)
  show ?case
  proof (cases "CHR '':'' \<in> set t")
    case True
    obtain k v where kv: "split_once CHR '':'' t = (k, v)" by (cases "split_once CHR '':'' t")
    have "collect_props info (t # ts) = collect_props (AList.update k (PStr v) info) ts"
      using True kv by simp
    then have "map_of (collect_props info (t # ts))
        = map_of (AList.update k (PStr v) info) ++ spec_aux_props ts"
      by (simp only: Cons.IH)
    also have "\<dots> = (map_of info)(k \<mapsto> PStr v) ++ spec_aux_props ts"
      by (simp only: update_conv')
    also have "\<dots> = map_of info ++ ([k \<mapsto> PStr v] ++ spec_aux_props ts)"
      by (simp add: map_add_upd_left [symmetric] map_add_assoc [symmetric]) 
    also have "[k \<mapsto> PStr v] ++ spec_aux_props ts = spec_aux_props (t # ts)"
      using True kv by (simp add: spec_aux_props_def)
    finally show ?thesis .
  next
    case False
    then show ?thesis using Cons.IH by (simp add: spec_aux_props_def)
  qed
qed

lemma query_props_map:
  "map_of (query_props run adb serial info) =
     (map_of info)
       (''model'' \<mapsto>
          (if adb_prop run adb serial ''ro.product.model'' \<noteq> ''''
           then PStr (adb_prop run adb serial ''ro.product.model'')
           else (case map_of info ''model'' of Some v \<Rightarrow> v | None \<Rightarrow> PStr serial)),
        ''manufacturer'' \<mapsto> PStr (adb_prop run adb serial ''ro.product.manufacturer''),
        ''android_version'' \<mapsto> PStr (adb_prop run adb serial ''ro.build.version.release''),
        ''sdk'' \<mapsto> PStr (adb_prop run adb serial ''ro.build.version.sdk''),
        ''resolution'' \<mapsto> PStr (get_resolution run adb serial),
        ''battery'' \<mapsto> get_battery run adb serial)"
  by (simp add: query_props_def Let_def update_conv' str_or_def dict_get_def)

lemma parse_line_not_listed:
  "\<not> spec_listed_line raw \<Longrightarrow> parse_line run adb devices raw = Inr devices"
  using py_split_strip_nonempty [of raw]
  by (auto simp: parse_line_def spec_listed_line_def Let_def py_in_sublist
           split: list.splits)

lemma parse_line_listed:
  assumes "spec_listed_line raw"
  shows "\<exists>d. parse_line run adb devices raw = Inr (devices @ [d])
             \<and> map_of d = spec_device run adb raw"
proof -
  from assms obtain serial status others where
    parts: "py_split (py_strip raw) = serial # status # others"
    and st: "status = ''device'' \<or> status = ''unauthorized''"
    and ne: "py_strip raw \<noteq> []" and off: "\<not> py_in ''offline'' (py_strip raw)"
    by (auto simp: spec_listed_line_def py_in_sublist split: list.splits)
  let ?info = "collect_props [(''serial'', PStr serial), (''status'', PStr status)] others"
  have base: "map_of ?info = [''serial'' \<mapsto> PStr serial, ''status'' \<mapsto> PStr status]
                 ++ spec_aux_props others"
  proof -
    have "map_of [(''serial'', PStr serial), (''status'', PStr status)]
        = [''serial'' \<mapsto> PStr serial, ''status'' \<mapsto> PStr status]"
      by (rule ext) simp
    then show ?thesis by (simp only: collect_props_map)
  qed
  show ?thesis
  proof (cases "status = ''device''")
    case True
    have "parse_line run adb devices raw = Inr (devices @ [query_props run adb serial ?info])"
      using parts ne off True by (simp add: parse_line_def Let_def)
    moreover have "map_of (query_props run adb serial ?info) = spec_device run adb raw"
      unfolding query_props_map base using parts True
      by (simp add: spec_device_def Let_def cong: option.case_cong)
    ultimately show ?thesis by blast
  next
    case False
    with st have un: "status = ''unauthorized''" by simp
    have "parse_line run adb devices raw = Inr (devices @ [?info])"
      using parts ne off un by (simp add: parse_line_def Let_def)
    moreover have "map_of ?info = spec_device run adb raw"
      unfolding base using parts un by (simp add: spec_device_def Let_def)
    ultimately show ?thesis by blast
  qed
qed

lemma parse_lines_listed:
  "\<exists>ds. parse_lines run adb devices raws = Inr (devices @ ds)
        \<and> map map_of ds = map (spec_device run adb) (filter spec_listed_line raws)"
proof (induction raws arbitrary: devices)
  case Nil
  show ?case by simp
next
  case (Cons raw raws)
  show ?case
  proof (cases "spec_listed_line raw")
    case True
    from parse_line_listed [OF True, of run adb devices] obtain d where
      d: "parse_line run adb devices raw = Inr (devices @ [d])"
         "map_of d = spec_device run adb raw" by blast
    from Cons.IH [of "devices @ [d]"] obtain ds where
      ds: "parse_lines run adb (devices @ [d]) raws = Inr ((devices @ [d]) @ ds)"
          "map map_of ds = map (spec_device run adb) (filter spec_listed_line raws)" by blast
    have "parse_lines run adb devices (raw # raws) = Inr (devices @ (d # ds))"
      using d(1) ds(1) by simp
    moreover have "map map_of (d # ds)
        = map (spec_device run adb) (filter spec_listed_line (raw # raws))"
      using True d(2) ds(2) by simp
    ultimately show ?thesis by blast
  next
    case False
    from Cons.IH [of devices] obtain ds where
      ds: "parse_lines run adb devices raws = Inr (devices @ ds)"
          "map map_of ds = map (spec_device run adb) (filter spec_listed_line raws)" by blast
    then show ?thesis using False by (simp add: parse_line_not_listed)
  qed
qed

lemma get_adb_devices_listed:
  assumes "run [adb, ''devices'', ''-l''] = Completed out"
  shows "\<exists>ds. get_adb_devices run adb = Inr ds
          \<and> map map_of ds = map (spec_device run adb)
               (filter spec_listed_line (drop 1 (py_splitlines (py_strip out))))"
  using assms parse_lines_listed [of run adb "[]"] by (simp add: get_adb_devices_def)

lemma get_adb_devices_Inl_iff:
  "get_adb_devices run adb = Inl e \<longleftrightarrow>
     run [adb, ''devices'', ''-l''] = Raises e
     \<and> e \<notin> {TimeoutExpired, FileNotFoundError, OSError}"
proof (cases "run [adb, ''devices'', ''-l'']")
  case (Raises e')
  then show ?thesis by (auto simp: get_adb_devices_def)
next
  case (Completed out)
  with get_adb_devices_listed [of run adb out] show ?thesis by auto
qed

text \<open>
  Claim C3. When the listing command times out, its executable is missing, or the
  operating system fails to launch it, \<open>get_adb_devices\<close> returns the empty list. The
  function raises only when the listing command itself raised an exception that is none
  of these three.
\<close>

theorem list_devices_degrades_silently:
  "(run [adb, ''devices'', ''-l''] = Raises e
      \<and> e \<in> {TimeoutExpired, FileNotFoundError, OSError}
      \<longrightarrow> get_adb_devices run adb = Inr [])
   \<and> (get_adb_devices run adb = Inl e' \<longleftrightarrow>
        run [adb, ''devices'', ''-l''] = Raises e'
        \<and> e' \<notin> {TimeoutExpired, FileNotFoundError, OSError})"
  using get_adb_devices_Inl_iff [of run adb e'] by (auto simp: get_adb_devices_def)

theorem list_devices_degrades_silently_witness:
  "get_adb_devices (\<lambda>cmd. Raises TimeoutExpired) ''adb'' = Inr []
   \<and> get_adb_devices (\<lambda>cmd. Raises FileNotFoundError) ''adb'' = Inr []
   \<and> get_adb_devices (\<lambda>cmd. Raises OSError) ''adb'' = Inr []
   \<and> get_adb_devices (\<lambda>cmd. Raises UnicodeDecodeError) ''adb'' = Inl UnicodeDecodeError"
  using list_devices_degrades_silently [of "\<lambda>cmd. Raises TimeoutExpired" "''adb''" TimeoutExpired]
    list_devices_degrades_silently [of "\<lambda>cmd. Raises FileNotFoundError" "''adb''" FileNotFoundError]
    list_devices_degrades_silently [of "\<lambda>cmd. Raises OSError" "''adb''" OSError]
    list_devices_degrades_silently
      [of "\<lambda>cmd. Raises UnicodeDecodeError" "''adb''" UnicodeDecodeError UnicodeDecodeError]
  by simp

text \<open>
  Claim C4. The devices returned for a completed listing are, in the order of the
  output's lines, exactly the devices of the lines that are listed among those after
  the first line: blank lines, lines that contain \<open>offline\<close> and lines whose second token
  is neither \<open>device\<close> nor \<open>unauthorized\<close> give no device, and each device carries the
  \<open>key:value\<close> tokens of its line as auxiliary properties.
\<close>

theorem list_devices_keeps_listed_lines:
  "run [adb, ''devices'', ''-l''] = Completed out \<longrightarrow>
     (\<exists>ds. get_adb_devices run adb = Inr ds
        \<and> map map_of ds = map (spec_device run adb)
             (filter spec_listed_line (drop 1 (py_splitlines (py_strip out)))))"
  using get_adb_devices_listed by blast

lemma listing_lines:
  "filter spec_listed_line (drop 1 (py_splitlines (py_strip listing_output)))
     = [''R58M  device usb:1-1 model:SM_G990 transport_id:3'', ''HT7A  unauthorized usb:1-2'']"
  by code_simp

theorem list_devices_keeps_listed_lines_witness:
  "\<exists>ds. get_adb_devices failing_queries_bridge ''adb'' = Inr ds
      \<and> map map_of ds = map (spec_device failing_queries_bridge ''adb'')
           [''R58M  device usb:1-1 model:SM_G990 transport_id:3'', ''HT7A  unauthorized usb:1-2'']"
proof -
  have "failing_queries_bridge [''adb'', ''devices'', ''-l''] = Completed listing_output"
    by (simp add: failing_queries_bridge_def)
  with list_devices_keeps_listed_lines [of failing_queries_bridge "''adb''" listing_output]
  have "\<exists>ds. get_adb_devices failing_queries_bridge ''adb'' = Inr ds
      \<and> map map_of ds = map (spec_device failing_queries_bridge ''adb'')
           (filter spec_listed_line (drop 1 (py_splitlines (py_strip listing_output))))"
    by blast
  then show ?thesis unfolding listing_lines .
qed

lemma parse_lines_append:
  "parse_lines run adb devices (xs @ ys) =
     (case parse_lines run adb devices xs of
        Inl e \<Rightarrow> Inl e
      | Inr devices' \<Rightarrow> parse_lines run adb devices' ys)"
  by (induction xs arbitrary: devices) (auto split: sum.splits)

lemma single_token_not_listed:
  "length (py_split (py_strip raw)) = 1 \<Longrightarrow> \<not> spec_listed_line raw"
  by (auto simp: spec_listed_line_def split: list.splits)

lemma parse_line_total: "\<exists>devices'. parse_line run adb devices raw = Inr devices'"
  using parse_line_listed [of raw run adb devices] parse_line_not_listed [of raw run adb devices]
  by (cases "spec_listed_line raw") auto

text \<open>
  Claim C10. A line that consists of a single token gives no device: the loop leaves
  the list as it was, so the result is the same as without the line. No line makes the
  loop fail, and a completed listing always gives a list of devices.
\<close>

theorem single_token_line_excluded:
  "(length (py_split (py_strip raw)) = 1 \<longrightarrow>
      parse_line run adb devices raw = Inr devices
      \<and> parse_lines run adb devices (before @ raw # after)
          = parse_lines run adb devices (before @ after))
   \<and> (\<exists>devices'. parse_line run adb devices raw = Inr devices')
   \<and> (run [adb, ''devices'', ''-l''] = Completed out \<longrightarrow>
        (\<exists>ds. get_adb_devices run adb = Inr ds))"
proof (intro conjI impI)
  assume one: "length (py_split (py_strip raw)) = 1"
  then show skip: "parse_line run adb devices raw = Inr devices"
    by (simp add: single_token_not_listed parse_line_not_listed)
  have "\<And>ds. parse_line run adb ds raw = Inr ds"
    using one by (simp add: single_token_not_listed parse_line_not_listed)
  then show "parse_lines run adb devices (before @ raw # after)
          = parse_lines run adb devices (before @ after)"
    by (simp add: parse_lines_append split: sum.splits)
next
  show "\<exists>devices'. parse_line run adb devices raw = Inr devices'"
    by (rule parse_line_total)
next
  assume "run [adb, ''devices'', ''-l''] = Completed out"
  with get_adb_devices_listed [of run adb out]
  show "\<exists>ds. get_adb_devices run adb = Inr ds" by blast
qed

theorem single_token_line_excluded_witness:
  "parse_line failing_queries_bridge ''adb'' [] ''lonely'' = Inr []
   \<and> parse_lines failing_queries_bridge ''adb'' []
        ([''R58M device''] @ ''lonely'' # [''HT7A unauthorized''])
      = parse_lines failing_queries_bridge ''adb'' [] ([''R58M device''] @ [''HT7A unauthorized''])
   \<and> (\<exists>ds. get_adb_devices failing_queries_bridge ''adb'' = Inr ds)"
proof -
  have one: "length (py_split (py_strip ''lonely'')) = 1"
    by code_simp
  have run: "failing_queries_bridge [''adb'', ''devices'', ''-l''] = Completed listing_output"
    by (simp add: failing_queries_bridge_def)
  from one run
    single_token_line_excluded [of "''lonely''" failing_queries_bridge "''adb''" "[]"
      "[''R58M device'']" "[''HT7A unauthorized'']" listing_output]
  show ?thesis by blast
qed

lemma parse_line_device:
  assumes "spec_listed_line raw" "py_split (py_strip raw) = serial # ''device'' # others"
  shows "parse_line run adb devices raw =
           Inr (devices @ [query_props run adb serial
                  (collect_props [(''serial'', PStr serial), (''status'', PStr ''device'')] others)])"
  using assms
  by (auto simp: parse_line_def spec_listed_line_def Let_def py_in_sublist)

text \<open>
  Claim C6, as the code has it. A property query whose command fails gives the empty
  string (\<open>None\<close> for the battery). No query can abort the listing: a completed listing
  gives one device for every listed line, whatever the queries do. In the device, a
  query that gave nothing leaves the manufacturer, the Android version, the SDK and the
  resolution empty and the battery \<open>None\<close>, while the model falls back to the \<open>model:\<close>
  token of the line or, without one, to the serial.
\<close>

theorem property_queries_degrade:
  "(run [adb, ''-s'', serial, ''shell'', ''getprop'', key] = Raises e
      \<longrightarrow> adb_prop run adb serial key = '''')
   \<and> (run [adb, ''-s'', serial, ''shell'', ''wm'', ''size''] = Raises e
      \<longrightarrow> get_resolution run adb serial = '''')
   \<and> (run [adb, ''-s'', serial, ''shell'', ''dumpsys'', ''battery''] = Raises e
      \<longrightarrow> get_battery run adb serial = PNone)
   \<and> (run [adb, ''devices'', ''-l''] = Completed out \<longrightarrow>
        (\<exists>ds. get_adb_devices run adb = Inr ds
           \<and> length ds = length (filter spec_listed_line (drop 1 (py_splitlines (py_strip out))))))
   \<and> (spec_listed_line raw \<and> py_split (py_strip raw) = serial # ''device'' # others \<longrightarrow>
        (\<exists>d. parse_line run adb devices raw = Inr (devices @ [d])
           \<and> (adb_prop run adb serial ''ro.product.manufacturer'' = ''''
                \<longrightarrow> map_of d ''manufacturer'' = Some (PStr ''''))
           \<and> (adb_prop run adb serial ''ro.build.version.release'' = ''''
                \<longrightarrow> map_of d ''android_version'' = Some (PStr ''''))
           \<and> (adb_prop run adb serial ''ro.build.version.sdk'' = ''''
                \<longrightarrow> map_of d ''sdk'' = Some (PStr ''''))
           \<and> (get_resolution run adb serial = ''''
                \<longrightarrow> map_of d ''resolution'' = Some (PStr ''''))
           \<and> (get_battery run adb serial = PNone
                \<longrightarrow> map_of d ''battery'' = Some PNone)
           \<and> (adb_prop run adb serial ''ro.product.model'' = ''''
                \<longrightarrow> map_of d ''model'' =
                      Some (case spec_aux_props others ''model'' of
                              Some v \<Rightarrow> v | None \<Rightarrow> PStr serial))))"
proof (intro conjI impI)
  assume "run [adb, ''-s'', serial, ''shell'', ''getprop'', key] = Raises e"
  then show "adb_prop run adb serial key = ''''" by (simp add: adb_prop_def)
next
  assume "run [adb, ''-s'', serial, ''shell'', ''wm'', ''size''] = Raises e"
  then show "get_resolution run adb serial = ''''" by (simp add: get_resolution_def)
next
  assume "run [adb, ''-s'', serial, ''shell'', ''dumpsys'', ''battery''] = Raises e"
  then show "get_battery run adb serial = PNone" by (simp add: get_battery_def)
next
  assume "run [adb, ''devices'', ''-l''] = Completed out"
  with get_adb_devices_listed [of run adb out] obtain ds where
    ds: "get_adb_devices run adb = Inr ds"
        "map map_of ds = map (spec_device run adb)
           (filter spec_listed_line (drop 1 (py_splitlines (py_strip out))))" by blast
  from ds(2) have "length (map map_of ds) = length (map (spec_device run adb)
           (filter spec_listed_line (drop 1 (py_splitlines (py_strip out)))))" by simp
  then have "length ds = length (filter spec_listed_line (drop 1 (py_splitlines (py_strip out))))"
    by (simp only: length_map)
  with ds(1) show "\<exists>ds. get_adb_devices run adb = Inr ds
           \<and> length ds = length (filter spec_listed_line (drop 1 (py_splitlines (py_strip out))))"
    by blast
next
  assume a: "spec_listed_line raw \<and> py_split (py_strip raw) = serial # ''device'' # others"
  let ?info = "collect_props [(''serial'', PStr serial), (''status'', PStr ''device'')] others"
  let ?d = "query_props run adb serial ?info"
  have pl: "parse_line run adb devices raw = Inr (devices @ [?d])"
    using a parse_line_device by blast
  have info: "map_of ?info ''model'' = spec_aux_props others ''model''"
    by (simp add: collect_props_map map_add_def split: option.splits)
  have m: "map_of ?d =
     (map_of ?info)
       (''model'' \<mapsto>
          (if adb_prop run adb serial ''ro.product.model'' \<noteq> ''''
           then PStr (adb_prop run adb serial ''ro.product.model'')
           else (case map_of ?info ''model'' of Some v \<Rightarrow> v | None \<Rightarrow> PStr serial)),
        ''manufacturer'' \<mapsto> PStr (adb_prop run adb serial ''ro.product.manufacturer''),
        ''android_version'' \<mapsto> PStr (adb_prop run adb serial ''ro.build.version.release''),
        ''sdk'' \<mapsto> PStr (adb_prop run adb serial ''ro.build.version.sdk''),
        ''resolution'' \<mapsto> PStr (get_resolution run adb serial),
        ''battery'' \<mapsto> get_battery run adb serial)"
    by (rule query_props_map)
  have "(adb_prop run adb serial ''ro.product.manufacturer'' = ''''
                \<longrightarrow> map_of ?d ''manufacturer'' = Some (PStr ''''))
           \<and> (adb_prop run adb serial ''ro.build.version.release'' = ''''
                \<longrightarrow> map_of ?d ''android_version'' = Some (PStr ''''))
           \<and> (adb_prop run adb serial ''ro.build.version.sdk'' = ''''
                \<longrightarrow> map_of ?d ''sdk'' = Some (PStr ''''))
           \<and> (get_resolution run adb serial = ''''
                \<longrightarrow> map_of ?d ''resolution'' = Some (PStr ''''))
           \<and> (get_battery run adb serial = PNone
                \<longrightarrow> map_of ?d ''battery'' = Some PNone)
           \<and> (adb_prop run adb serial ''ro.product.model'' = ''''
                \<longrightarrow> map_of ?d ''model'' =
                      Some (case spec_aux_props others ''model'' of
                              Some v \<Rightarrow> v | None \<Rightarrow> PStr serial))"
    unfolding m info by simp
  with pl show "\<exists>d. parse_line run adb devices raw = Inr (devices @ [d])
           \<and> (adb_prop run adb serial ''ro.product.manufacturer'' = ''''
                \<longrightarrow> map_of d ''manufacturer'' = Some (PStr ''''))
           \<and> (adb_prop run adb serial ''ro.build.version.release'' = ''''
                \<longrightarrow> map_of d ''android_version'' = Some (PStr ''''))
           \<and> (adb_prop run adb serial ''ro.build.version.sdk'' = ''''
                \<longrightarrow> map_of d ''sdk'' = Some (PStr ''''))
           \<and> (get_resolution run adb serial = ''''
                \<longrightarrow> map_of d ''resolution'' = Some (PStr ''''))
           \<and> (get_battery run adb serial = PNone
                \<longrightarrow> map_of d ''battery'' = Some PNone)
           \<and> (adb_prop run adb serial ''ro.product.model'' = ''''
                \<longrightarrow> map_of d ''model'' =
                      Some (case spec_aux_props others ''model'' of
                              Some v \<Rightarrow> v | None \<Rightarrow> PStr serial))"
    by blast
qed

text \<open>
  The model does not degrade to the empty string: on the example bridge the model query
  times out and the device's model is the \<open>model:\<close> token of its line.
\<close>

theorem property_failure_keeps_model_counterexample:
  "failing_queries_bridge [''adb'', ''-s'', ''R58M'', ''shell'', ''getprop'', ''ro.product.model'']
     = Raises TimeoutExpired
   \<and> get_adb_devices failing_queries_bridge ''adb'' =
       Inr [[(''serial'', PStr ''R58M''), (''status'', PStr ''device''),
             (''usb'', PStr ''1-1''), (''model'', PStr ''SM_G990''),
             (''transport_id'', PStr ''3''), (''manufacturer'', PStr ''''),
             (''android_version'', PStr ''''), (''sdk'', PStr ''''),
             (''resolution'', PStr ''''), (''battery'', PNone)],
            [(''serial'', PStr ''HT7A''), (''status'', PStr ''unauthorized''),
             (''usb'', PStr ''1-2'')]]
   \<and> map_of [(''serial'', PStr ''R58M''), (''status'', PStr ''device''),
             (''usb'', PStr ''1-1''), (''model'', PStr ''SM_G990''),
             (''transport_id'', PStr ''3''), (''manufacturer'', PStr ''''),
             (''android_version'', PStr ''''), (''sdk'', PStr ''''),
             (''resolution'', PStr ''''), (''battery'', PNone)] ''model''
       = Some (PStr ''SM_G990'')"
proof -
  have "failing_queries_bridge [''adb'', ''-s'', ''R58M'', ''shell'', ''getprop'', ''ro.product.model'']
     = Raises TimeoutExpired"
    by (simp add: failing_queries_bridge_def)
  moreover have "get_adb_devices failing_queries_bridge ''adb'' =
       Inr [[(''serial'', PStr ''R58M''), (''status'', PStr ''device''),
             (''usb'', PStr ''1-1''), (''model'', PStr ''SM_G990''),
             (''transport_id'', PStr ''3''), (''manufacturer'', PStr ''''),
             (''android_version'', PStr ''''), (''sdk'', PStr ''''),
             (''resolution'', PStr ''''), (''battery'', PNone)],
            [(''serial'', PStr ''HT7A''), (''status'', PStr ''unauthorized''),
             (''usb'', PStr ''1-2'')]]"
    by code_simp
  ultimately show ?thesis by simp
qed

theorem property_queries_degrade_witness:
  "adb_prop failing_queries_bridge ''adb'' ''R58M'' ''ro.product.manufacturer'' = ''''
   \<and> get_resolution failing_queries_bridge ''adb'' ''R58M'' = ''''
   \<and> get_battery failing_queries_bridge ''adb'' ''R58M'' = PNone
   \<and> (\<exists>ds. get_adb_devices failing_queries_bridge ''adb'' = Inr ds \<and> length ds = 2)
   \<and> (\<exists>d. parse_line failing_queries_bridge ''adb'' []
              ''R58M  device usb:1-1 model:SM_G990 transport_id:3'' = Inr [d]
          \<and> map_of d ''manufacturer'' = Some (PStr '''')
          \<and> map_of d ''android_version'' = Some (PStr '''')
          \<and> map_of d ''sdk'' = Some (PStr '''')
          \<and> map_of d ''resolution'' = Some (PStr '''')
          \<and> map_of d ''battery'' = Some PNone
          \<and> map_of d ''model'' = Some (PStr ''SM_G990''))"
proof -
  let ?raw = "''R58M  device usb:1-1 model:SM_G990 transport_id:3''"
  let ?others = "[''usb:1-1'', ''model:SM_G990'', ''transport_id:3'']"
  note inst = property_queries_degrade [where run = failing_queries_bridge and adb = "''adb''"
      and serial = "''R58M''" and e = TimeoutExpired and out = listing_output and raw = ?raw
      and others = ?others and devices = "[]"]
  have q: "\<And>prop. failing_queries_bridge [''adb'', ''-s'', ''R58M'', ''shell'', ''getprop'', prop]
             = Raises TimeoutExpired"
    by (simp add: failing_queries_bridge_def)
  have w: "failing_queries_bridge [''adb'', ''-s'', ''R58M'', ''shell'', ''wm'', ''size'']
             = Raises TimeoutExpired"
    by (simp add: failing_queries_bridge_def)
  have b: "failing_queries_bridge [''adb'', ''-s'', ''R58M'', ''shell'', ''dumpsys'', ''battery'']
             = Raises TimeoutExpired"
    by (simp add: failing_queries_bridge_def)
  have l: "failing_queries_bridge [''adb'', ''devices'', ''-l''] = Completed listing_output"
    by (simp add: failing_queries_bridge_def)
  have k: "spec_listed_line ?raw"
    by code_simp
  have p: "py_split (py_strip ?raw) = ''R58M'' # ''device'' # ?others"
    by code_simp
  have a: "spec_aux_props ?others ''model'' = Some (PStr ''SM_G990'')"
    by (simp add: spec_aux_props_def split_once_def)
  have p1: "adb_prop failing_queries_bridge ''adb'' ''R58M'' ''ro.product.manufacturer'' = ''''"
    using inst [where key = "''ro.product.manufacturer''"] q by blast
  have p2: "adb_prop failing_queries_bridge ''adb'' ''R58M'' ''ro.build.version.release'' = ''''"
    using inst [where key = "''ro.build.version.release''"] q by blast
  have p3: "adb_prop failing_queries_bridge ''adb'' ''R58M'' ''ro.build.version.sdk'' = ''''"
    using inst [where key = "''ro.build.version.sdk''"] q by blast
  have p4: "adb_prop failing_queries_bridge ''adb'' ''R58M'' ''ro.product.model'' = ''''"
    using inst [where key = "''ro.product.model''"] q by blast
  have r: "get_resolution failing_queries_bridge ''adb'' ''R58M'' = ''''"
    using inst [where key = "''ro.product.model''"] w by blast
  have bt: "get_battery failing_queries_bridge ''adb'' ''R58M'' = PNone"
    using inst [where key = "''ro.product.model''"] b by blast
  have len: "length (filter spec_listed_line (drop 1 (py_splitlines (py_strip listing_output))))
               = 2"
    unfolding listing_lines by simp
  have "\<exists>ds. get_adb_devices failing_queries_bridge ''adb'' = Inr ds
          \<and> length ds
              = length (filter spec_listed_line (drop 1 (py_splitlines (py_strip listing_output))))"
    using inst [where key = "''ro.product.model''"] l by blast
  then have n: "\<exists>ds. get_adb_devices failing_queries_bridge ''adb'' = Inr ds \<and> length ds = 2"
    unfolding len .
  have d: "\<exists>d. parse_line failing_queries_bridge ''adb'' [] ?raw = Inr [d]
          \<and> map_of d ''manufacturer'' = Some (PStr '''')
          \<and> map_of d ''android_version'' = Some (PStr '''')
          \<and> map_of d ''sdk'' = Some (PStr '''')
          \<and> map_of d ''resolution'' = Some (PStr '''')
          \<and> map_of d ''battery'' = Some PNone
          \<and> map_of d ''model'' = Some (PStr ''SM_G990'')"
    using inst [where key = "''ro.product.model''"] k p p1 p2 p3 p4 r bt a by simp
  from p1 r bt n d show ?thesis by blast
qed

section \<open>Launching and ending sessions\<close>

lemma tracked_needs_scrcpy:
  "reachable st \<Longrightarrow> active_mirrors st s = Some p \<Longrightarrow> \<not> falsy (scrcpy_path st)"
proof (induction arbitrary: s p rule: reachable.induct)
  case (init found_adb found_scrcpy)
  then show ?case by (simp add: app_init_def)
next
  case (refresh st found_adb found_scrcpy st' acts fetch)
  then show ?case
    by (auto simp: refresh_devices_def show_empty_def Let_def split: if_splits)
next
  case (listed st devices st' acts)
  then show ?case
    by (auto simp: update_device_list_def update_count_def show_empty_def Let_def
             split: option.splits if_splits sum.splits)
next
  case (interface st ds cs l e)
  then show ?case by simp
next
  case (click st poll device card' st' acts req)
  then show ?case
    by (auto simp: on_device_click_def split: option.splits if_splits)
next
  case (spawned st serial spawn st' raised)
  then show ?case
    by (auto simp: launch_spawn_def falsy_def split: if_splits spawn_outcome.splits)
next
  case (finished st req raised st' sched)
  then show ?case
    by (auto simp: launch_finally_def split: prod.splits if_splits)
qed

lemma click_never_tracks:
  assumes "on_device_click poll st device c = Inr (st', acts, req)"
    and "active_mirrors st' s = Some p"
  shows "active_mirrors st s = Some p"
  using assms by (auto simp: on_device_click_def split: option.splits if_splits)

text \<open>
  Claim C1. \<open>active_mirrors\<close> is a dictionary, so it tracks at most one process for a
  serial. In every state the application can reach, a click on a device whose serial is
  tracked is answered according to the tracked process: while it runs, the click shows
  the busy toast, resets the card, changes nothing and starts no launch thread; once it
  has exited, the stale entry is removed from \<open>active_mirrors\<close> and then the launch thread
  is started. A click never adds a process to \<open>active_mirrors\<close>.
\<close>

theorem live_session_rejects_launch:
  "reachable st \<and> map_of device ''serial'' = Some S \<and> active_mirrors st S = Some p \<longrightarrow>
     (poll p = None \<longrightarrow>
        on_device_click poll st device c =
          Inr (st, [ShowToast (AlreadyMirroring (dict_get device ''model'' S)) YELLOW,
                    ResetState c], None))
   \<and> (poll p \<noteq> None \<longrightarrow>
        on_device_click poll st device c =
          Inr (st\<lparr>active_mirrors := (active_mirrors st)(S := None)\<rparr>,
               [ShowToast (LaunchingMirror (dict_get device ''model'' S)) ACCENT],
               Some (S, device, c)))
   \<and> (\<forall>st' acts req s q.
         on_device_click poll st device c = Inr (st', acts, req) \<and> active_mirrors st' s = Some q
         \<longrightarrow> active_mirrors st s = Some q)"
proof (intro impI conjI allI)
  assume a: "reachable st \<and> map_of device ''serial'' = Some S \<and> active_mirrors st S = Some p"
  then have ok: "\<not> falsy (scrcpy_path st)" using tracked_needs_scrcpy by blast
  {
    assume "poll p = None"
    with a ok show "on_device_click poll st device c =
          Inr (st, [ShowToast (AlreadyMirroring (dict_get device ''model'' S)) YELLOW,
                    ResetState c], None)"
      by (simp add: on_device_click_def)
  }
  {
    assume "poll p \<noteq> None"
    with a ok show "on_device_click poll st device c =
          Inr (st\<lparr>active_mirrors := (active_mirrors st)(S := None)\<rparr>,
               [ShowToast (LaunchingMirror (dict_get device ''model'' S)) ACCENT],
               Some (S, device, c))"
      by (simp add: on_device_click_def)
  }
  {
    fix st' acts req s q
    assume "on_device_click poll st device c = Inr (st', acts, req) \<and> active_mirrors st' s = Some q"
    then show "active_mirrors st s = Some q" using click_never_tracks by blast
  }
qed

theorem live_session_rejects_launch_witness:
  "on_device_click (\<lambda>p. None)
     \<lparr>adb_path = Some ''adb.exe'', scrcpy_path = Some ''scrcpy.exe'', current_devices = [],
      device_cards = [], active_mirrors = [PStr ''R58M'' \<mapsto> 7],
      device_count_label = NoText, empty_visible = False\<rparr>
     [(''serial'', PStr ''R58M''), (''model'', PStr ''SM_G990'')]
     (DeviceCard [(''serial'', PStr ''R58M''), (''model'', PStr ''SM_G990'')])
   = Inr (\<lparr>adb_path = Some ''adb.exe'', scrcpy_path = Some ''scrcpy.exe'', current_devices = [],
           device_cards = [], active_mirrors = [PStr ''R58M'' \<mapsto> 7],
           device_count_label = NoText, empty_visible = False\<rparr>,
          [ShowToast (AlreadyMirroring (PStr ''SM_G990'')) YELLOW,
           ResetState (DeviceCard [(''serial'', PStr ''R58M''), (''model'', PStr ''SM_G990'')])],
          None)
   \<and> on_device_click (\<lambda>p. Some 0)
     \<lparr>adb_path = Some ''adb.exe'', scrcpy_path = Some ''scrcpy.exe'', current_devices = [],
      device_cards = [], active_mirrors = [PStr ''R58M'' \<mapsto> 7],
      device_count_label = NoText, empty_visible = False\<rparr>
     [(''serial'', PStr ''R58M''), (''model'', PStr ''SM_G990'')]
     (DeviceCard [(''serial'', PStr ''R58M''), (''model'', PStr ''SM_G990'')])
   = Inr (\<lparr>adb_path = Some ''adb.exe'', scrcpy_path = Some ''scrcpy.exe'', current_devices = [],
           device_cards = [],
           active_mirrors = [PStr ''R58M'' \<mapsto> 7](PStr ''R58M'' := None),
           device_count_label = NoText, empty_visible = False\<rparr>,
          [ShowToast (LaunchingMirror (PStr ''SM_G990'')) ACCENT],
          Some (PStr ''R58M'', [(''serial'', PStr ''R58M''), (''model'', PStr ''SM_G990'')],
                DeviceCard [(''serial'', PStr ''R58M''), (''model'', PStr ''SM_G990'')]))"
proof -
  let ?st = "\<lparr>adb_path = Some ''adb.exe'', scrcpy_path = Some ''scrcpy.exe'',
      current_devices = [], device_cards = [], active_mirrors = [PStr ''R58M'' \<mapsto> 7::nat],
      device_count_label = NoText, empty_visible = False\<rparr>"
  let ?dev = "[(''serial'', PStr ''R58M''), (''model'', PStr ''SM_G990'')]"
  have "reachable (app_init (Some ''adb.exe'') (Some ''scrcpy.exe''))"
    by (rule reachable.init)
  moreover have "launch_spawn (app_init (Some ''adb.exe'') (Some ''scrcpy.exe''))
                   (PStr ''R58M'') (Spawned 7) = (?st, None)"
    by (simp add: launch_spawn_def app_init_def)
  ultimately have r: "reachable ?st"
    by (rule reachable.spawned)
  have s: "map_of ?dev ''serial'' = Some (PStr ''R58M'')"
    by simp
  have m: "dict_get ?dev ''model'' (PStr ''R58M'') = PStr ''SM_G990''"
    by (simp add: dict_get_def)
  have t: "active_mirrors ?st (PStr ''R58M'') = Some 7"
    by simp
  have u: "?st\<lparr>active_mirrors := (active_mirrors ?st)(PStr ''R58M'' := None)\<rparr>
         = \<lparr>adb_path = Some ''adb.exe'', scrcpy_path = Some ''scrcpy.exe'', current_devices = [],
            device_cards = [],
            active_mirrors = [PStr ''R58M'' \<mapsto> 7](PStr ''R58M'' := None),
            device_count_label = NoText, empty_visible = False\<rparr>"
    by simp
  have busy: "on_device_click (\<lambda>p. None) ?st ?dev (DeviceCard ?dev)
      = Inr (?st, [ShowToast (AlreadyMirroring (dict_get ?dev ''model'' (PStr ''R58M''))) YELLOW,
                   ResetState (DeviceCard ?dev)], None)"
    using live_session_rejects_launch
      [of ?st ?dev "PStr ''R58M''" 7 "\<lambda>p. None" "DeviceCard ?dev"] r s t
    by blast
  have gone: "on_device_click (\<lambda>p. Some 0) ?st ?dev (DeviceCard ?dev)
      = Inr (?st\<lparr>active_mirrors := (active_mirrors ?st)(PStr ''R58M'' := None)\<rparr>,
             [ShowToast (LaunchingMirror (dict_get ?dev ''model'' (PStr ''R58M''))) ACCENT],
             Some (PStr ''R58M'', ?dev, DeviceCard ?dev))"
    using live_session_rejects_launch
      [of ?st ?dev "PStr ''R58M''" 7 "\<lambda>p. Some 0" "DeviceCard ?dev"] r s t
    by blast
  show ?thesis
    using busy gone unfolding m u by (rule conjI)
qed

lemma launch_finally_once:
  "length (filter (\<lambda>x. snd x = ResetState c) (snd (launch_finally st (S, device, c) raised))) = 1
   \<and> active_mirrors (fst (launch_finally st (S, device, c) raised)) S = None"
  by (cases raised) (simp_all add: launch_finally_def)

text \<open>
  Claim C7. Whatever \<open>Popen\<close> and the wait for the process do (a spawn failure, an
  exception, any exit code) and whatever the other threads do to the state meanwhile,
  the launch thread schedules \<open>card.reset_state\<close> exactly once, and when it ends the
  serial is not in \<open>active_mirrors\<close>. The same holds of the \<open>finally\<close> clause from any
  state.
\<close>

theorem session_end_notified_once:
  "length (filter (\<lambda>x. snd x = ResetState c)
             (snd (launch st (S, device, c) spawn others waited))) = 1
   \<and> active_mirrors (fst (launch st (S, device, c) spawn others waited)) S = None
   \<and> length (filter (\<lambda>x. snd x = ResetState c)
                (snd (launch_finally st (S, device, c) raised))) = 1
   \<and> active_mirrors (fst (launch_finally st (S, device, c) raised)) S = None"
proof -
  obtain st1 r where sp: "launch_spawn st S spawn = (st1, r)"
    by (cases "launch_spawn st S spawn")
  have "\<exists>st2 raised'. launch st (S, device, c) spawn others waited
          = launch_finally st2 (S, device, c) raised'"
    using sp by (cases r) (auto simp: launch_def)
  then show ?thesis using launch_finally_once by metis
qed

theorem session_end_notified_once_witness:
  "length (filter (\<lambda>x. snd x = ResetState (DeviceCard [(''serial'', PStr ''R58M'')]))
             (snd (launch (app_init (Some ''adb.exe'') (Some ''scrcpy.exe''))
                     (PStr ''R58M'', [(''serial'', PStr ''R58M'')],
                      DeviceCard [(''serial'', PStr ''R58M'')])
                     (Spawned 7) (\<lambda>st. st) (Exited 0)))) = 1
   \<and> active_mirrors
         (fst (launch (app_init (Some ''adb.exe'') (Some ''scrcpy.exe''))
                 (PStr ''R58M'', [(''serial'', PStr ''R58M'')],
                  DeviceCard [(''serial'', PStr ''R58M'')])
                 (Spawned 7) (\<lambda>st. st) (Exited 0)))
         (PStr ''R58M'') = None
   \<and> length (filter (\<lambda>x. snd x = ResetState (DeviceCard [(''serial'', PStr ''R58M'')]))
             (snd (launch (app_init (Some ''adb.exe'') None)
                     (PStr ''R58M'', [(''serial'', PStr ''R58M'')],
                      DeviceCard [(''serial'', PStr ''R58M'')])
                     (SpawnRaises FileNotFoundError) (\<lambda>st. st) (WaitRaises OSError)))) = 1"
  using session_end_notified_once
      [of "DeviceCard [(''serial'', PStr ''R58M'')]"
          "app_init (Some ''adb.exe'') (Some ''scrcpy.exe'')" "PStr ''R58M''"
          "[(''serial'', PStr ''R58M'')]" "Spawned 7" "\<lambda>st. st" "Exited 0" None]
    session_end_notified_once
      [of "DeviceCard [(''serial'', PStr ''R58M'')]"
          "app_init (Some ''adb.exe'') None" "PStr ''R58M''"
          "[(''serial'', PStr ''R58M'')]" "SpawnRaises FileNotFoundError" "\<lambda>st. st"
          "WaitRaises OSError" None]
  by blast

section \<open>Reconciling the device list\<close>

lemma build_cards_all:
  "\<forall>d \<in> set devices. new_card d = Inr (DeviceCard d) \<Longrightarrow>
   build_cards cards devices = Inr (cards @ map DeviceCard devices)"
  by (induction devices arbitrary: cards) auto

text \<open>
  Claim C5. Let the stored list and the new list both have a serial in every device.
  When their serial sets and their lengths agree, \<open>_update_device_list\<close> sets the count
  label and changes nothing else: no card is destroyed or built and the stored list
  stays. Otherwise, when a card can be built for every new device, the new list is
  stored, the count label is set, every old card is destroyed, and the cards are one
  per new device in the listed order, with the empty frame shown exactly for the empty
  list. In particular a list equal to the stored one only sets the count label.
\<close>

theorem unchanged_listing_skips_rebuild:
  "serials_of (current_devices st) = Some current_serials
     \<and> serials_of devices = Some new_serials \<longrightarrow>
     (set current_serials = set new_serials \<and> length devices = length (current_devices st)
        \<longrightarrow> update_device_list st devices =
              Inr (st\<lparr>device_count_label :=
                        (if length devices = 0 then NoText
                         else if length devices = 1 then OneDevice
                         else Devices (length devices))\<rparr>, []))
   \<and> (\<not> (set current_serials = set new_serials \<and> length devices = length (current_devices st))
        \<and> (\<forall>d \<in> set devices. new_card d = Inr (DeviceCard d))
        \<longrightarrow> update_device_list st devices =
              Inr (st\<lparr>current_devices := devices,
                      device_count_label :=
                        (if length devices = 0 then NoText
                         else if length devices = 1 then OneDevice
                         else Devices (length devices)),
                      device_cards := map DeviceCard devices,
                      empty_visible := (devices = [])\<rparr>,
                   map Destroy (device_cards st)))
   \<and> (current_devices st = devices \<longrightarrow>
        update_device_list st devices = Inr (update_count st (length devices), []))"
proof (intro impI conjI)
  assume s: "serials_of (current_devices st) = Some current_serials
     \<and> serials_of devices = Some new_serials"
  {
    assume "set current_serials = set new_serials \<and> length devices = length (current_devices st)"
    with s show "update_device_list st devices =
              Inr (st\<lparr>device_count_label :=
                        (if length devices = 0 then NoText
                         else if length devices = 1 then OneDevice
                         else Devices (length devices))\<rparr>, [])"
      by (simp add: update_device_list_def update_count_def)
  }
  {
    assume c: "\<not> (set current_serials = set new_serials
                   \<and> length devices = length (current_devices st))
        \<and> (\<forall>d \<in> set devices. new_card d = Inr (DeviceCard d))"
    then have b: "build_cards [] devices = Inr (map DeviceCard devices)"
      using build_cards_all [of devices "[]"] by simp
    show "update_device_list st devices =
              Inr (st\<lparr>current_devices := devices,
                      device_count_label :=
                        (if length devices = 0 then NoText
                         else if length devices = 1 then OneDevice
                         else Devices (length devices)),
                      device_cards := map DeviceCard devices,
                      empty_visible := (devices = [])\<rparr>,
                   map Destroy (device_cards st))"
    proof (cases "devices = []")
      case True
      with s c show ?thesis
        by (auto simp: update_device_list_def update_count_def show_empty_def Let_def)
    next
      case False
      with s c b show ?thesis
        by (auto simp: update_device_list_def update_count_def Let_def)
    qed
  }
  {
    assume "current_devices st = devices"
    with s show "update_device_list st devices = Inr (update_count st (length devices), [])"
      by (auto simp: update_device_list_def)
  }
qed

theorem unchanged_listing_skips_rebuild_witness:
  "update_device_list
     ((app_init (Some ''adb.exe'') (Some ''scrcpy.exe''))
        \<lparr>current_devices := [[(''serial'', PStr ''R58M''), (''status'', PStr ''device''),
                               (''battery'', PInt 80)]],
         device_cards := [DeviceCard [(''serial'', PStr ''R58M''), (''status'', PStr ''device''),
                                      (''battery'', PInt 80)]],
         device_count_label := OneDevice\<rparr>)
     [[(''serial'', PStr ''R58M''), (''status'', PStr ''device''), (''battery'', PInt 79)]]
   = Inr ((app_init (Some ''adb.exe'') (Some ''scrcpy.exe''))
            \<lparr>current_devices := [[(''serial'', PStr ''R58M''), (''status'', PStr ''device''),
                                   (''battery'', PInt 80)]],
             device_cards := [DeviceCard [(''serial'', PStr ''R58M''), (''status'', PStr ''device''),
                                          (''battery'', PInt 80)]],
             device_count_label := OneDevice\<rparr>, [])
   \<and> update_device_list
     ((app_init (Some ''adb.exe'') (Some ''scrcpy.exe''))
        \<lparr>current_devices := [[(''serial'', PStr ''R58M''), (''status'', PStr ''device''),
                               (''battery'', PInt 80)]],
         device_cards := [DeviceCard [(''serial'', PStr ''R58M''), (''status'', PStr ''device''),
                                      (''battery'', PInt 80)]],
         device_count_label := OneDevice\<rparr>)
     [[(''serial'', PStr ''R58M''), (''status'', PStr ''device''), (''battery'', PInt 79)],
      [(''serial'', PStr ''HT7A''), (''status'', PStr ''unauthorized'')]]
   = Inr ((app_init (Some ''adb.exe'') (Some ''scrcpy.exe''))
            \<lparr>current_devices :=
               [[(''serial'', PStr ''R58M''), (''status'', PStr ''device''), (''battery'', PInt 79)],
                [(''serial'', PStr ''HT7A''), (''status'', PStr ''unauthorized'')]],
             device_cards :=
               [DeviceCard [(''serial'', PStr ''R58M''), (''status'', PStr ''device''),
                            (''battery'', PInt 79)],
                DeviceCard [(''serial'', PStr ''HT7A''), (''status'', PStr ''unauthorized'')]],
             device_count_label := Devices 2\<rparr>,
          [Destroy (DeviceCard [(''serial'', PStr ''R58M''), (''status'', PStr ''device''),
                                (''battery'', PInt 80)])])
   \<and> update_device_list
     ((app_init (Some ''adb.exe'') (Some ''scrcpy.exe''))
        \<lparr>current_devices := [[(''serial'', PStr ''R58M''), (''status'', PStr ''device''),
                               (''battery'', PInt 80)]],
         device_cards := [DeviceCard [(''serial'', PStr ''R58M''), (''status'', PStr ''device''),
                                      (''battery'', PInt 80)]],
         device_count_label := OneDevice\<rparr>)
     [[(''serial'', PStr ''R58M''), (''status'', PStr ''device''), (''battery'', PInt 80)]]
   = Inr (update_count
            ((app_init (Some ''adb.exe'') (Some ''scrcpy.exe''))
               \<lparr>current_devices := [[(''serial'', PStr ''R58M''), (''status'', PStr ''device''),
                                      (''battery'', PInt 80)]],
                device_cards := [DeviceCard [(''serial'', PStr ''R58M''),
                                             (''status'', PStr ''device''),
                                             (''battery'', PInt 80)]],
                device_count_label := OneDevice\<rparr>) 1, [])"
proof -
  let ?d1 = "[(''serial'', PStr ''R58M''), (''status'', PStr ''device''), (''battery'', PInt 80)]"
  let ?d1' = "[(''serial'', PStr ''R58M''), (''status'', PStr ''device''), (''battery'', PInt 79)]"
  let ?d2 = "[(''serial'', PStr ''HT7A''), (''status'', PStr ''unauthorized'')]"
  let ?st = "(app_init (Some ''adb.exe'') (Some ''scrcpy.exe''))
        \<lparr>current_devices := [?d1], device_cards := [DeviceCard ?d1],
         device_count_label := OneDevice\<rparr>"
  have cur: "serials_of (current_devices ?st) = Some [PStr ''R58M'']"
    by simp
  have new1: "serials_of [?d1'] = Some [PStr ''R58M'']"
    by simp
  have new2: "serials_of [?d1', ?d2] = Some [PStr ''R58M'', PStr ''HT7A'']"
    by simp
  have same: "set [PStr ''R58M''] = set [PStr ''R58M''] \<and> length [?d1'] = length (current_devices ?st)"
    by simp
  have diff: "\<not> (set [PStr ''R58M''] = set [PStr ''R58M'', PStr ''HT7A'']
                 \<and> length [?d1', ?d2] = length (current_devices ?st))"
    by simp
  have cards: "\<forall>d \<in> set [?d1', ?d2]. new_card d = Inr (DeviceCard d)"
    by (simp add: new_card_def dict_get_def)
  have a: "update_device_list ?st [?d1'] =
              Inr (?st\<lparr>device_count_label :=
                        (if length [?d1'] = 0 then NoText
                         else if length [?d1'] = 1 then OneDevice
                         else Devices (length [?d1']))\<rparr>, [])"
    using unchanged_listing_skips_rebuild [of ?st "[PStr ''R58M'']" "[?d1']" "[PStr ''R58M'']"]
      cur new1 same by blast
  have b: "update_device_list ?st [?d1', ?d2] =
              Inr (?st\<lparr>current_devices := [?d1', ?d2],
                      device_count_label :=
                        (if length [?d1', ?d2] = 0 then NoText
                         else if length [?d1', ?d2] = 1 then OneDevice
                         else Devices (length [?d1', ?d2])),
                      device_cards := map DeviceCard [?d1', ?d2],
                      empty_visible := ([?d1', ?d2] = [])\<rparr>,
                   map Destroy (device_cards ?st))"
    using unchanged_listing_skips_rebuild
      [of ?st "[PStr ''R58M'']" "[?d1', ?d2]" "[PStr ''R58M'', PStr ''HT7A'']"]
      cur new2 diff cards by blast
  from a have a': "update_device_list ?st [?d1'] = Inr (?st, [])"
    by (simp add: app_init_def)
  from b have b': "update_device_list ?st [?d1', ?d2] =
      Inr ((app_init (Some ''adb.exe'') (Some ''scrcpy.exe''))
            \<lparr>current_devices := [?d1', ?d2],
             device_cards := [DeviceCard ?d1', DeviceCard ?d2],
             device_count_label := Devices 2\<rparr>,
          [Destroy (DeviceCard ?d1)])"
    by (simp add: app_init_def)
  have same_list: "current_devices ?st = [?d1]"
    by simp
  have new0: "serials_of [?d1] = Some [PStr ''R58M'']"
    by simp
  have "update_device_list ?st [?d1] = Inr (update_count ?st (length [?d1]), [])"
    using unchanged_listing_skips_rebuild [of ?st "[PStr ''R58M'']" "[?d1]" "[PStr ''R58M'']"]
      cur new0 same_list by blast
  then have c': "update_device_list ?st [?d1] = Inr (update_count ?st 1, [])"
    by (simp only: list.size One_nat_def add_0)
  show ?thesis
    by (intro conjI) (rule a', rule b', rule c')
qed

end
